theory Spec2Isabelle
  imports Main "HOL-Library.Word"
begin

section \<open>Data model\<close>

type_synonym UInt64 = "64 word"
type_synonym UInt32 = "32 word"
type_synonym SInt32 = "32 word"
type_synonym Byte = "8 word"
type_synonym core_id_t = int

text \<open>
  Modelled from the spec: the declarations of \<open>Operand\<close>, \<open>Instruction\<close>,
  \<open>InstructionType\<close>, \<open>DynamicInstructionInfo\<close> and \<open>BasicBlock\<close> are in headers
  that are not part of the sources at hand. An operand bears a location class
  (register, memory, immediate) and a direction (read, write); an instruction has a
  type tag, an ordered operand list and a static cost; a dynamic fact has a variant tag
  and, for the two memory variants, a latency; a basic block is an ordered sequence of
  instructions with a dynamic flag.
\<close>

datatype OperandType = REG | MEMORY | IMMEDIATE

datatype OperandDirection = READ | WRITE

record Operand =
  m_type :: OperandType
  m_direction :: OperandDirection

datatype InstructionType =
  INST_GENERIC | INST_BRANCH | INST_MEMORY_OP | INST_RECV | INST_SYNC | INST_SPAWN
  | INST_OTHER nat

record Instruction =
  getType :: InstructionType
  getOperands :: "Operand list"
  getCost :: UInt64

datatype DynamicInfoType = MEMORY_READ | MEMORY_WRITE | BRANCH

record DynamicInstructionInfo =
  info_type :: DynamicInfoType
  memory_info_latency :: UInt64

record BasicBlock =
  insts :: "Instruction list"
  isDynamic :: bool

text \<open>
  The queries of the process-wide singletons (\<open>Config\<close>, \<open>Sim()\<close>) that the code
  below consults. Their implementation is not part of the sources at hand, so their
  answers are parameters of the model.
\<close>

record Env =
  getEnablePerformanceModeling :: bool
  getMCPCoreNum :: core_id_t
  getCurrentCoreID :: core_id_t
  getProcessCount :: nat
  getCoreListForProcess :: "nat \<Rightarrow> core_id_t list"

text \<open>Objects on which \<open>delete\<close> has been called.\<close>

datatype freed_object = FreedInstruction Instruction | FreedBasicBlock BasicBlock

text \<open>
  The state of a \<open>MagicPepPerformanceModel\<close>: the integer fields of \<open>CorePerfModel\<close>,
  its two queues (front of the queue = head of the list), the subclass's instruction
  counter, and the list \<open>freed\<close> of the objects the model has deleted so far, in order.
  The fields \<open>m_frequency\<close>, \<open>m_average_frequency\<close> and \<open>m_total_time\<close> hold
  floating-point values and are left out.
\<close>

record CorePerfModel =
  m_cycle_count :: UInt64
  m_checkpointed_cycle_count :: UInt64
  m_enabled :: bool
  m_current_ins_index :: nat
  m_basic_block_queue :: "BasicBlock list"
  m_dynamic_info_queue :: "DynamicInstructionInfo list"
  m_instruction_count :: UInt64
  freed :: "freed_object list"

text \<open>
  How a call ends: it returns a value, it throws one of the two signalling exceptions
  (the state at the throw is kept, since side effects up to that point persist), or a
  \<open>LOG_ASSERT_ERROR\<close> fails and the process terminates with a diagnostic (the
  format string of the assertion).
\<close>

datatype exn = AbortInstructionException | DynamicInstructionInfoNotAvailableException

datatype 'a outcome = Returns 'a | Throws exn CorePerfModel | Fatal string

section \<open>CorePerfModel\<close>

text \<open>The constructor, without the floating-point fields.\<close>

definition CorePerfModel_new :: CorePerfModel where
  "CorePerfModel_new =
     \<lparr> m_cycle_count = 0, m_checkpointed_cycle_count = 0, m_enabled = False,
       m_current_ins_index = 0, m_basic_block_queue = [], m_dynamic_info_queue = [],
       m_instruction_count = 0, freed = [] \<rparr>"

definition enable :: "Env \<Rightarrow> CorePerfModel \<Rightarrow> CorePerfModel" where
  "enable env m =
     (if getCurrentCoreID env = getMCPCoreNum env then m
      else m\<lparr>m_enabled := True\<rparr>)"

definition disable :: "CorePerfModel \<Rightarrow> CorePerfModel" where
  "disable m = m\<lparr>m_enabled := False\<rparr>"

definition setCycleCount :: "UInt64 \<Rightarrow> CorePerfModel \<Rightarrow> CorePerfModel" where
  "setCycleCount cycle_count m =
     m\<lparr>m_checkpointed_cycle_count := cycle_count, m_cycle_count := cycle_count\<rparr>"

definition queueDynamicInstruction :: "Env \<Rightarrow> Instruction \<Rightarrow> CorePerfModel \<Rightarrow> CorePerfModel" where
  "queueDynamicInstruction env i m =
     (if \<not> m_enabled m \<or> \<not> getEnablePerformanceModeling env
      then m\<lparr>freed := freed m @ [FreedInstruction i]\<rparr>
      else m\<lparr>m_basic_block_queue :=
                m_basic_block_queue m @ [\<lparr>insts = [i], isDynamic = True\<rparr>]\<rparr>)"

definition queueBasicBlock :: "Env \<Rightarrow> BasicBlock \<Rightarrow> CorePerfModel \<Rightarrow> CorePerfModel" where
  "queueBasicBlock env basic_block m =
     (if \<not> m_enabled m \<or> \<not> getEnablePerformanceModeling env then m
      else m\<lparr>m_basic_block_queue := m_basic_block_queue m @ [basic_block]\<rparr>)"

definition pushDynamicInstructionInfo ::
  "Env \<Rightarrow> DynamicInstructionInfo \<Rightarrow> CorePerfModel \<Rightarrow> CorePerfModel" where
  "pushDynamicInstructionInfo env i m =
     (if \<not> m_enabled m \<or> \<not> getEnablePerformanceModeling env then m
      else m\<lparr>m_dynamic_info_queue := m_dynamic_info_queue m @ [i]\<rparr>)"

definition popDynamicInstructionInfo :: "Env \<Rightarrow> CorePerfModel \<Rightarrow> CorePerfModel outcome" where
  "popDynamicInstructionInfo env m =
     (if \<not> m_enabled m \<or> \<not> getEnablePerformanceModeling env then Returns m
      else if \<not> length (m_dynamic_info_queue m) > 0
        then Fatal ''Expected some dynamic info to be available.''
      else if \<not> length (m_dynamic_info_queue m) < 5000
        then Fatal ''Dynamic info queue is growing too big.''
      else Returns (m\<lparr>m_dynamic_info_queue := tl (m_dynamic_info_queue m)\<rparr>))"

definition getDynamicInstructionInfo :: "CorePerfModel \<Rightarrow> DynamicInstructionInfo outcome" where
  "getDynamicInstructionInfo m =
     (if m_dynamic_info_queue m = []
        then Throws DynamicInstructionInfoNotAvailableException m
      else if \<not> length (m_dynamic_info_queue m) < 5000
        then Fatal ''Dynamic info queue is growing too big.''
      else Returns (hd (m_dynamic_info_queue m)))"

section \<open>MagicPepPerformanceModel\<close>

definition isModeled :: "InstructionType \<Rightarrow> bool" where
  "isModeled instruction_type =
     (case instruction_type of
        INST_RECV \<Rightarrow> True
      | INST_SYNC \<Rightarrow> True
      | INST_SPAWN \<Rightarrow> True
      | _ \<Rightarrow> False)"

text \<open>
  The loop of \<open>handleInstruction\<close> over the operands, from operand \<open>i\<close> on, with the
  local variable \<open>cost\<close> threaded through. An exception or a failed assertion leaves
  the loop at once; what has been popped until then stays popped.
\<close>

fun handleOperands ::
  "Env \<Rightarrow> Operand list \<Rightarrow> UInt64 \<Rightarrow> CorePerfModel \<Rightarrow> (UInt64 \<times> CorePerfModel) outcome" where
  "handleOperands env [] cost m = Returns (cost, m)"
| "handleOperands env (oper # ops) cost m =
     (if m_type oper = MEMORY then
        (case getDynamicInstructionInfo m of
           Throws e m' \<Rightarrow> Throws e m'
         | Fatal s \<Rightarrow> Fatal s
         | Returns info \<Rightarrow>
             (if m_direction oper = READ then
                (if info_type info \<noteq> MEMORY_READ
                 then Fatal ''Expected memory read info, got: %d.''
                 else (case popDynamicInstructionInfo env m of
                         Throws e m' \<Rightarrow> Throws e m'
                       | Fatal s \<Rightarrow> Fatal s
                       | Returns m' \<Rightarrow>
                           handleOperands env ops (cost + memory_info_latency info) m'))
              else
                (if info_type info \<noteq> MEMORY_WRITE
                 then Fatal ''Expected memory write info, got: %d.''
                 else (case popDynamicInstructionInfo env m of
                         Throws e m' \<Rightarrow> Throws e m'
                       | Fatal s \<Rightarrow> Fatal s
                       | Returns m' \<Rightarrow>
                           handleOperands env ops (cost + memory_info_latency info) m'))))
      else handleOperands env ops cost m)"

definition handleInstruction :: "Env \<Rightarrow> Instruction \<Rightarrow> CorePerfModel \<Rightarrow> CorePerfModel outcome" where
  "handleInstruction env instruction m =
     (case handleOperands env (getOperands instruction) 0 m of
        Throws e m' \<Rightarrow> Throws e m'
      | Fatal s \<Rightarrow> Fatal s
      | Returns (cost, m') \<Rightarrow>
          (let instruction_cost = getCost instruction;
               cost' = (if isModeled (getType instruction)
                        then cost + instruction_cost else cost + 1)
           in Returns (m'\<lparr>m_instruction_count := m_instruction_count m' + 1,
                           m_cycle_count := m_cycle_count m' + cost'\<rparr>)))"


section \<open>The cooperative iterate loop\<close>

text \<open>
  \<open>handleInstruction\<close> touches the dynamic-info queue, the cycle count and the
  instruction count only. The predicate below says that two states agree on every field
  but the dynamic-info queue; it is what a failed or incomplete run of the operand loop
  preserves.
\<close>


definition same_outside_dynamic_info_queue :: "CorePerfModel \<Rightarrow> CorePerfModel \<Rightarrow> bool" where
  "same_outside_dynamic_info_queue m m' =
     (m_current_ins_index m' = m_current_ins_index m \<and>
      m_basic_block_queue m' = m_basic_block_queue m \<and>
      m_enabled m' = m_enabled m \<and>
      m_cycle_count m' = m_cycle_count m \<and>
      m_checkpointed_cycle_count m' = m_checkpointed_cycle_count m \<and>
      m_instruction_count m' = m_instruction_count m \<and>
      freed m' = freed m)"

lemma same_outside_refl: "same_outside_dynamic_info_queue m m"
  by (simp add: same_outside_dynamic_info_queue_def)

lemma same_outside_trans:
  "same_outside_dynamic_info_queue m m1 \<Longrightarrow> same_outside_dynamic_info_queue m1 m2 \<Longrightarrow>
   same_outside_dynamic_info_queue m m2"
  by (simp add: same_outside_dynamic_info_queue_def)

lemma popDynamicInstructionInfo_frame:
  "popDynamicInstructionInfo env m = Returns m' \<Longrightarrow> same_outside_dynamic_info_queue m m'"
  by (auto simp: popDynamicInstructionInfo_def same_outside_dynamic_info_queue_def
           split: if_splits)

lemma popDynamicInstructionInfo_no_throw:
  "popDynamicInstructionInfo env m \<noteq> Throws e m'"
  by (simp add: popDynamicInstructionInfo_def)

lemma getDynamicInstructionInfo_throw:
  "getDynamicInstructionInfo m = Throws e m' \<Longrightarrow>
     m' = m \<and> e = DynamicInstructionInfoNotAvailableException \<and> m_dynamic_info_queue m = []"
  by (auto simp: getDynamicInstructionInfo_def split: if_splits)

lemma handleOperands_frame:
  "handleOperands env ops c m = Returns (c', m') \<Longrightarrow> same_outside_dynamic_info_queue m m'"
proof (induction ops arbitrary: c m)
  case Nil
  then show ?case by (simp add: same_outside_refl)
next
  case (Cons oper ops)
  from Cons.prems show ?case
    by (auto split: outcome.splits if_splits
             dest!: Cons.IH popDynamicInstructionInfo_frame
             intro: same_outside_trans)
qed

lemma handleOperands_throws_frame:
  "handleOperands env ops c m = Throws e m' \<Longrightarrow>
     same_outside_dynamic_info_queue m m' \<and> e = DynamicInstructionInfoNotAvailableException
     \<and> m_dynamic_info_queue m' = []"
proof (induction ops arbitrary: c m)
  case Nil
  then show ?case by simp
next
  case (Cons oper ops)
  from Cons.prems show ?case
    by (auto simp: popDynamicInstructionInfo_no_throw same_outside_refl
             split: outcome.splits if_splits
             dest!: Cons.IH popDynamicInstructionInfo_frame getDynamicInstructionInfo_throw
             intro: same_outside_trans)
qed


lemma handleInstruction_frame:
  "handleInstruction env i m = Returns m' \<Longrightarrow>
     m_current_ins_index m' = m_current_ins_index m \<and>
     m_basic_block_queue m' = m_basic_block_queue m \<and>
     m_enabled m' = m_enabled m \<and> freed m' = freed m"
  by (auto simp: handleInstruction_def Let_def same_outside_dynamic_info_queue_def
           split: outcome.splits prod.splits dest!: handleOperands_frame)

lemma handleInstruction_throws_frame:
  "handleInstruction env i m = Throws e m' \<Longrightarrow>
     same_outside_dynamic_info_queue m m' \<and> e = DynamicInstructionInfoNotAvailableException
     \<and> m_dynamic_info_queue m' = []"
  by (auto simp: handleInstruction_def Let_def
           split: outcome.splits prod.splits dest!: handleOperands_throws_frame)

text \<open>
  The inner \<open>for\<close> loop of \<open>iterate\<close> over the instructions of the head block,
  from \<open>m_current_ins_index\<close> on. An \<open>AbortInstructionException\<close> is caught and the
  loop moves on; a \<open>DynamicInstructionInfoNotAvailableException\<close> leaves the loop with
  the cursor where it is.
\<close>

function iterate_block :: "Env \<Rightarrow> BasicBlock \<Rightarrow> CorePerfModel \<Rightarrow> CorePerfModel outcome" where
  "iterate_block env current_bb m =
     (if m_current_ins_index m < length (insts current_bb) then
        (case handleInstruction env (insts current_bb ! m_current_ins_index m) m of
           Returns m' \<Rightarrow>
             iterate_block env current_bb (m'\<lparr>m_current_ins_index := m_current_ins_index m' + 1\<rparr>)
         | Throws AbortInstructionException m' \<Rightarrow>
             iterate_block env current_bb (m'\<lparr>m_current_ins_index := m_current_ins_index m' + 1\<rparr>)
         | Throws DynamicInstructionInfoNotAvailableException m' \<Rightarrow>
             Throws DynamicInstructionInfoNotAvailableException m'
         | Fatal s \<Rightarrow> Fatal s)
      else Returns m)"
  by pat_completeness auto
termination
proof (relation "measure (\<lambda>(env, current_bb, m). length (insts current_bb) - m_current_ins_index m)")
  show "wf (measure (\<lambda>(env, current_bb, m). length (insts current_bb) - m_current_ins_index m))"
    by simp
next
  fix env :: Env and current_bb :: BasicBlock and m m' :: CorePerfModel
  assume "m_current_ins_index m < length (insts current_bb)"
    and "handleInstruction env (insts current_bb ! m_current_ins_index m) m = Returns m'"
  then show "((env, current_bb, m'\<lparr>m_current_ins_index := m_current_ins_index m' + 1\<rparr>),
              (env, current_bb, m))
             \<in> measure (\<lambda>(env, current_bb, m). length (insts current_bb) - m_current_ins_index m)"
    by (auto dest!: handleInstruction_frame)
next
  fix env :: Env and current_bb :: BasicBlock and m m' :: CorePerfModel and e :: exn
  assume "m_current_ins_index m < length (insts current_bb)"
    and "handleInstruction env (insts current_bb ! m_current_ins_index m) m = Throws e m'"
  then show "((env, current_bb, m'\<lparr>m_current_ins_index := m_current_ins_index m' + 1\<rparr>),
              (env, current_bb, m))
             \<in> measure (\<lambda>(env, current_bb, m). length (insts current_bb) - m_current_ins_index m)"
    by (auto simp: same_outside_dynamic_info_queue_def dest!: handleInstruction_throws_frame)
qed

declare iterate_block.simps [simp del]

lemma iterate_block_frame:
  "iterate_block env bb m = Returns m' \<Longrightarrow>
     m_basic_block_queue m' = m_basic_block_queue m \<and> m_enabled m' = m_enabled m"
proof (induction env bb m rule: iterate_block.induct)
  case (1 env current_bb m)
  show ?case
  proof (cases "m_current_ins_index m < length (insts current_bb)")
    case False
    with "1.prems" show ?thesis by (simp add: iterate_block.simps [of env current_bb m])
  next
    case True
    from "1.prems" True obtain m1 where
      h: "handleInstruction env (insts current_bb ! m_current_ins_index m) m = Returns m1" and
      r: "iterate_block env current_bb (m1\<lparr>m_current_ins_index := m_current_ins_index m1 + 1\<rparr>)
            = Returns m'"
      by (auto simp: iterate_block.simps [of env current_bb m]
               split: outcome.splits exn.splits dest!: handleInstruction_throws_frame)
    from "1.IH"(1) [OF True h r] handleInstruction_frame [OF h] show ?thesis by simp
  qed
qed

text \<open>
  The outer \<open>while\<close> loop: as long as more than one block is queued, run the head
  block; when it is done, delete it if it is dynamic, pop it and reset the cursor. The
  stall exception ends \<open>iterate\<close> normally.
\<close>

function iterate :: "Env \<Rightarrow> CorePerfModel \<Rightarrow> CorePerfModel outcome" where
  "iterate env m =
     (if length (m_basic_block_queue m) > 1 then
        (let current_bb = hd (m_basic_block_queue m) in
         case iterate_block env current_bb m of
           Returns m' \<Rightarrow>
             iterate env
               (m'\<lparr>freed := (if isDynamic current_bb
                               then freed m' @ [FreedBasicBlock current_bb] else freed m'),
                    m_basic_block_queue := tl (m_basic_block_queue m'),
                    m_current_ins_index := 0\<rparr>)
         | Throws DynamicInstructionInfoNotAvailableException m' \<Rightarrow> Returns m'
         | Throws AbortInstructionException m' \<Rightarrow> Throws AbortInstructionException m'
         | Fatal s \<Rightarrow> Fatal s)
      else Returns m)"
  by pat_completeness auto
termination
proof (relation "measure (\<lambda>(env, m). length (m_basic_block_queue m))")
  show "wf (measure (\<lambda>(env, m). length (m_basic_block_queue m)))"
    by simp
next
  fix env :: Env and m m' :: CorePerfModel and current_bb :: BasicBlock
  assume "1 < length (m_basic_block_queue m)"
    and "current_bb = hd (m_basic_block_queue m)"
    and "iterate_block env current_bb m = Returns m'"
  then show "((env, m'\<lparr>freed := (if isDynamic current_bb
                               then freed m' @ [FreedBasicBlock current_bb] else freed m'),
                    m_basic_block_queue := tl (m_basic_block_queue m'),
                    m_current_ins_index := 0\<rparr>), (env, m))
             \<in> measure (\<lambda>(env, m). length (m_basic_block_queue m))"
    by (auto dest!: iterate_block_frame)
qed

declare iterate.simps [simp del]



section \<open>Sequences of operations\<close>

text \<open>
  \<open>recomputeAverageFrequency\<close>, as far as the integer fields go: it checkpoints the
  cycle count. Its floating-point updates are left out with the fields they write.
\<close>

definition recomputeAverageFrequency :: "CorePerfModel \<Rightarrow> CorePerfModel" where
  "recomputeAverageFrequency m = m\<lparr>m_checkpointed_cycle_count := m_cycle_count m\<rparr>"

text \<open>
  The public operations of the model as values, one step of the model under an
  operation, and a run of a list of operations, which stops at the first failed
  assertion. A state is reachable when a run from \<open>CorePerfModel_new\<close> returns it.
\<close>

datatype operation =
  OpEnable | OpDisable | OpSetCycleCount UInt64 | OpRecomputeAverageFrequency
  | OpQueueDynamicInstruction Instruction | OpQueueBasicBlock BasicBlock
  | OpPushDynamicInstructionInfo DynamicInstructionInfo | OpPopDynamicInstructionInfo
  | OpIterate

fun step :: "Env \<Rightarrow> operation \<Rightarrow> CorePerfModel \<Rightarrow> CorePerfModel outcome" where
  "step env OpEnable m = Returns (enable env m)"
| "step env OpDisable m = Returns (disable m)"
| "step env (OpSetCycleCount c) m = Returns (setCycleCount c m)"
| "step env OpRecomputeAverageFrequency m = Returns (recomputeAverageFrequency m)"
| "step env (OpQueueDynamicInstruction i) m = Returns (queueDynamicInstruction env i m)"
| "step env (OpQueueBasicBlock b) m = Returns (queueBasicBlock env b m)"
| "step env (OpPushDynamicInstructionInfo i) m = Returns (pushDynamicInstructionInfo env i m)"
| "step env OpPopDynamicInstructionInfo m = popDynamicInstructionInfo env m"
| "step env OpIterate m = iterate env m"

fun run :: "Env \<Rightarrow> operation list \<Rightarrow> CorePerfModel \<Rightarrow> CorePerfModel outcome" where
  "run env [] m = Returns m"
| "run env (op # ops) m =
     (case step env op m of
        Returns m' \<Rightarrow> run env ops m'
      | Throws e m' \<Rightarrow> Throws e m'
      | Fatal s \<Rightarrow> Fatal s)"

section \<open>The MCP's broadcast to processes\<close>

text \<open>
  Modelled from the spec: the network (\<open>netSend\<close>, \<open>netRecv\<close>, \<open>NetPacket\<close>,
  \<open>NetMatch\<close>) is not part of the sources at hand. A packet carries sender,
  receiver, type and data. \<open>netSend\<close> hands a packet to the network. \<open>netRecv\<close>
  blocks until a packet whose type is among the acceptable types is available, and
  returns the earliest such packet. The model keeps the packets that arrive at the MCP,
  in arrival order, in \<open>inbox\<close>, and records every send and receive of the MCP, in
  order, in \<open>net_trace\<close>; a receive that no packet of the inbox satisfies never
  returns.
\<close>

datatype PacketType =
  MCP_REQUEST_TYPE | MCP_RESPONSE_TYPE | MCP_SYSTEM_TYPE | SIM_THREAD_UPDATE_COMM_MAP
  | OTHER_PACKET_TYPE nat

record NetPacket =
  sender :: core_id_t
  receiver :: core_id_t
  pkt_type :: PacketType
  pkt_data :: "Byte list"

datatype net_event = NetSend NetPacket | NetRecv NetPacket

record Network =
  inbox :: "NetPacket list"
  net_trace :: "net_event list"

definition netSend :: "NetPacket \<Rightarrow> Network \<Rightarrow> Network" where
  "netSend pkt net = net\<lparr>net_trace := net_trace net @ [NetSend pkt]\<rparr>"

fun take_first_match :: "PacketType list \<Rightarrow> NetPacket list \<Rightarrow> (NetPacket \<times> NetPacket list) option" where
  "take_first_match types [] = None"
| "take_first_match types (p # ps) =
     (if pkt_type p \<in> set types then Some (p, ps)
      else (case take_first_match types ps of
              None \<Rightarrow> None
            | Some (r, rest) \<Rightarrow> Some (r, p # rest)))"

definition netRecv :: "PacketType list \<Rightarrow> Network \<Rightarrow> (NetPacket \<times> Network) option" where
  "netRecv match_types net =
     (case take_first_match match_types (inbox net) of
        None \<Rightarrow> None
      | Some (r, rest) \<Rightarrow> Some (r, net\<lparr>inbox := rest, net_trace := net_trace net @ [NetRecv r]\<rparr>))"

text \<open>
  \<open>MCP::broadcastPacketToProcesses\<close>. The loop runs over the process ids in
  ascending order; \<open>pkt\<close> is the loop's packet, whose receiver each round overwrites.
  Indexing an empty core list with \<open>[0]\<close> is outside what the vector defines, and is
  an outcome of its own.
\<close>

datatype mcp_outcome = Completed Network | BlocksInRecv Network | VectorIndexOutOfRange Network

fun broadcastLoop :: "Env \<Rightarrow> nat list \<Rightarrow> NetPacket \<Rightarrow> Network \<Rightarrow> mcp_outcome" where
  "broadcastLoop env [] pkt net = Completed net"
| "broadcastLoop env (proc_id # procs) pkt net =
     (case getCoreListForProcess env proc_id of
        [] \<Rightarrow> VectorIndexOutOfRange net
      | core # _ \<Rightarrow>
          (let pkt' = pkt\<lparr>receiver := core\<rparr>;
               net' = netSend pkt' net
           in case netRecv [MCP_RESPONSE_TYPE] net' of
                None \<Rightarrow> BlocksInRecv net'
              | Some (recv_pkt, net'') \<Rightarrow> broadcastLoop env procs pkt' net''))"

definition broadcastPacketToProcesses :: "Env \<Rightarrow> NetPacket \<Rightarrow> Network \<Rightarrow> mcp_outcome" where
  "broadcastPacketToProcesses env pkt net =
     broadcastLoop env [0..<getProcessCount env] (pkt\<lparr>sender := getMCPCoreNum env\<rparr>) net"

section \<open>The LCP's packet dispatch\<close>

text \<open>
  A packet is a byte buffer. The host is little-endian. A read that leaves the buffer
  is outside what the language defines, and is an outcome of its own. The numeric
  values of the message tags are declared in a header that is not part of the sources
  at hand; they are the parameter \<open>tag\<close>. The handlers are not part of the sources
  either: the model returns which handler \<open>processPacket\<close> calls, with which
  arguments (the handlers that take the packet as a struct pointer get the buffer).
\<close>

datatype LCPMessageType =
  LCP_MESSAGE_QUIT | LCP_MESSAGE_COMMID_UPDATE | LCP_MESSAGE_SIMULATOR_FINISHED
  | LCP_MESSAGE_SIMULATOR_FINISHED_ACK | LCP_MESSAGE_THREAD_SPAWN_REQUEST_FROM_REQUESTER
  | LCP_MESSAGE_THREAD_SPAWN_REQUEST_FROM_MASTER | LCP_MESSAGE_THREAD_SPAWN_REPLY_FROM_SLAVE
  | LCP_MESSAGE_THREAD_EXIT | LCP_MESSAGE_THREAD_JOIN_REQUEST

datatype lcp_call =
  SetFinished
  | UpdateCommToCoreMap SInt32 SInt32
  | HandleFinish
  | DeallocateProcess
  | MasterSpawnThread "Byte list"
  | SlaveSpawnThread "Byte list"
  | MasterSpawnThreadReply "Byte list"
  | MasterOnThreadExit SInt32 UInt64
  | MasterJoinThread "Byte list"

datatype lcp_outcome = Dispatched lcp_call | ReadOutOfBounds | UnexpectedMessageType SInt32

definition read_bytes :: "Byte list \<Rightarrow> nat \<Rightarrow> nat \<Rightarrow> Byte list option" where
  "read_bytes buf off n = (if off + n \<le> length buf then Some (take n (drop off buf)) else None)"

fun little_endian :: "Byte list \<Rightarrow> nat" where
  "little_endian [] = 0"
| "little_endian (b # bs) = unat b + 256 * little_endian bs"

definition read_SInt32 :: "Byte list \<Rightarrow> nat \<Rightarrow> SInt32 option" where
  "read_SInt32 buf off = map_option (\<lambda>bs. word_of_nat (little_endian bs)) (read_bytes buf off 4)"

definition read_UInt64 :: "Byte list \<Rightarrow> nat \<Rightarrow> UInt64 option" where
  "read_UInt64 buf off = map_option (\<lambda>bs. word_of_nat (little_endian bs)) (read_bytes buf off 8)"

definition updateCommId :: "Byte list \<Rightarrow> nat \<Rightarrow> lcp_outcome" where
  "updateCommId buf vp =
     (case read_SInt32 buf vp of
        None \<Rightarrow> ReadOutOfBounds
      | Some comm_id \<Rightarrow>
          (case read_SInt32 buf (vp + 4) of
             None \<Rightarrow> ReadOutOfBounds
           | Some core_id \<Rightarrow> Dispatched (UpdateCommToCoreMap comm_id core_id)))"

text \<open>
  \<open>LCP::processPacket\<close>. \<open>data\<close> is the offset of \<open>pkt + sizeof(SInt32)\<close> in the
  buffer. In the \<open>THREAD_EXIT\<close> case the second argument is
  \<open>*((UInt64*)data+4)\<close>: the cast binds tighter than the addition, so the pointer
  moves by four \<open>UInt64\<close> elements, 32 bytes, from \<open>data\<close>.
\<close>

definition processPacket :: "(LCPMessageType \<Rightarrow> SInt32) \<Rightarrow> Byte list \<Rightarrow> lcp_outcome" where
  "processPacket tag pkt =
     (case read_SInt32 pkt 0 of
        None \<Rightarrow> ReadOutOfBounds
      | Some msg_type \<Rightarrow>
          (let data = 4 in
           if msg_type = tag LCP_MESSAGE_QUIT then Dispatched SetFinished
           else if msg_type = tag LCP_MESSAGE_COMMID_UPDATE then updateCommId pkt data
           else if msg_type = tag LCP_MESSAGE_SIMULATOR_FINISHED then Dispatched HandleFinish
           else if msg_type = tag LCP_MESSAGE_SIMULATOR_FINISHED_ACK then Dispatched DeallocateProcess
           else if msg_type = tag LCP_MESSAGE_THREAD_SPAWN_REQUEST_FROM_REQUESTER
             then Dispatched (MasterSpawnThread pkt)
           else if msg_type = tag LCP_MESSAGE_THREAD_SPAWN_REQUEST_FROM_MASTER
             then Dispatched (SlaveSpawnThread pkt)
           else if msg_type = tag LCP_MESSAGE_THREAD_SPAWN_REPLY_FROM_SLAVE
             then Dispatched (MasterSpawnThreadReply pkt)
           else if msg_type = tag LCP_MESSAGE_THREAD_EXIT then
             (case read_SInt32 pkt data of
                None \<Rightarrow> ReadOutOfBounds
              | Some thread_id \<Rightarrow>
                  (case read_UInt64 pkt (data + 4 * 8) of
                     None \<Rightarrow> ReadOutOfBounds
                   | Some cycle_count \<Rightarrow> Dispatched (MasterOnThreadExit thread_id cycle_count)))
           else if msg_type = tag LCP_MESSAGE_THREAD_JOIN_REQUEST
             then Dispatched (MasterJoinThread pkt)
           else UnexpectedMessageType msg_type))"

section \<open>Vocabulary of the claims\<close>

text \<open>
  The memory operands of an operand list, in order; the variant of fact that
  \<open>handleInstruction\<close> asserts for a memory operand (a read fact for a read operand,
  a write fact otherwise); and a sequence of pushes.
\<close>

definition memory_operands :: "Operand list \<Rightarrow> Operand list" where
  "memory_operands ops = filter (\<lambda>oper. m_type oper = MEMORY) ops"

definition expected_info_type :: "Operand \<Rightarrow> DynamicInfoType" where
  "expected_info_type oper = (if m_direction oper = READ then MEMORY_READ else MEMORY_WRITE)"

fun run_pushes :: "Env \<Rightarrow> DynamicInstructionInfo list \<Rightarrow> CorePerfModel \<Rightarrow> CorePerfModel" where
  "run_pushes env [] m = m"
| "run_pushes env (i # infos) m = run_pushes env infos (pushDynamicInstructionInfo env i m)"

text \<open>
  The packets of type \<open>MCP_RESPONSE_TYPE\<close> among a list of packets, and the others;
  the two events of one round of the broadcast, and the events of the rounds for a list
  of processes and the responses received in them.
\<close>

definition responses :: "NetPacket list \<Rightarrow> NetPacket list" where
  "responses ps = filter (\<lambda>p. pkt_type p = MCP_RESPONSE_TYPE) ps"

definition not_responses :: "NetPacket list \<Rightarrow> NetPacket list" where
  "not_responses ps = filter (\<lambda>p. pkt_type p \<noteq> MCP_RESPONSE_TYPE) ps"

definition send_then_recv :: "Env \<Rightarrow> NetPacket \<Rightarrow> nat \<Rightarrow> NetPacket \<Rightarrow> net_event list" where
  "send_then_recv env pkt proc_id response =
     [NetSend (pkt\<lparr>sender := getMCPCoreNum env, receiver := hd (getCoreListForProcess env proc_id)\<rparr>),
      NetRecv response]"

definition broadcast_events :: "Env \<Rightarrow> NetPacket \<Rightarrow> nat list \<Rightarrow> NetPacket list \<Rightarrow> net_event list" where
  "broadcast_events env pkt procs rs = concat (map2 (send_then_recv env pkt) procs rs)"

section \<open>Concrete inputs\<close>

text \<open>
  An environment in which the current core is not the MCP core, and the instructions,
  facts and blocks of the stall-and-resume scenario.
\<close>


definition example_env :: Env where
  "example_env =
     \<lparr> getEnablePerformanceModeling = True, getMCPCoreNum = 0, getCurrentCoreID = 1,
       getProcessCount = 3, getCoreListForProcess = (\<lambda>p. [2 * int p + 1, 2 * int p + 2]) \<rparr>"

definition example_env_off :: Env where
  "example_env_off = example_env\<lparr>getEnablePerformanceModeling := False\<rparr>"

definition generic_instruction :: Instruction where
  "generic_instruction = \<lparr> getType = INST_GENERIC, getOperands = [], getCost = 1 \<rparr>"

definition memory_read_instruction :: Instruction where
  "memory_read_instruction =
     \<lparr> getType = INST_MEMORY_OP,
       getOperands = [\<lparr>m_type = REG, m_direction = WRITE\<rparr>, \<lparr>m_type = MEMORY, m_direction = READ\<rparr>],
       getCost = 0 \<rparr>"

definition memory_read_info :: DynamicInstructionInfo where
  "memory_read_info = \<lparr> info_type = MEMORY_READ, memory_info_latency = 5 \<rparr>"

definition example_block :: BasicBlock where
  "example_block =
     \<lparr> insts = [generic_instruction, memory_read_instruction, generic_instruction],
       isDynamic = False \<rparr>"

definition sentinel_block :: BasicBlock where
  "sentinel_block = \<lparr> insts = [], isDynamic = False \<rparr>"


definition stalled_model :: CorePerfModel where
  "stalled_model =
     queueBasicBlock example_env sentinel_block
       (queueBasicBlock example_env example_block (enable example_env CorePerfModel_new))"

definition one_block_model :: CorePerfModel where
  "one_block_model = queueBasicBlock example_env example_block (enable example_env CorePerfModel_new)"

definition full_model :: CorePerfModel where
  "full_model =
     (pushDynamicInstructionInfo example_env memory_read_info ^^ 5000)
       (enable example_env CorePerfModel_new)"

definition disabled_with_work :: CorePerfModel where
  "disabled_with_work =
     CorePerfModel_new\<lparr>m_enabled := False, m_basic_block_queue := [example_block],
       m_dynamic_info_queue := [memory_read_info]\<rparr>"

definition sync_instruction :: Instruction where
  "sync_instruction =
     \<lparr> getType = INST_SYNC,
       getOperands = [\<lparr>m_type = MEMORY, m_direction = READ\<rparr>, \<lparr>m_type = IMMEDIATE, m_direction = READ\<rparr>,
                      \<lparr>m_type = MEMORY, m_direction = WRITE\<rparr>],
       getCost = 7 \<rparr>"

definition memory_write_info :: DynamicInstructionInfo where
  "memory_write_info = \<lparr> info_type = MEMORY_WRITE, memory_info_latency = 3 \<rparr>"

definition supplied_model :: CorePerfModel where
  "supplied_model =
     run_pushes example_env [memory_read_info, memory_write_info, memory_read_info]
       (enable example_env CorePerfModel_new)"

definition supplied_model_after :: CorePerfModel where
  "supplied_model_after =
     supplied_model\<lparr>m_dynamic_info_queue := [memory_read_info], m_instruction_count := 1,
                      m_cycle_count := 15\<rparr>"

definition mismatched_model :: CorePerfModel where
  "mismatched_model = run_pushes example_env [memory_write_info] (enable example_env CorePerfModel_new)"

definition unpopped_model :: CorePerfModel where
  "unpopped_model =
     \<lparr> m_cycle_count = 6, m_checkpointed_cycle_count = 0, m_enabled = False,
       m_current_ins_index = 0, m_basic_block_queue = [sentinel_block],
       m_dynamic_info_queue = [memory_read_info],
       m_instruction_count = 1,
       freed = [FreedBasicBlock \<lparr>insts = [memory_read_instruction], isDynamic = True\<rparr>] \<rparr>"

definition stalled_at_read :: CorePerfModel where
  "stalled_at_read =
     stalled_model\<lparr>m_cycle_count := 1, m_current_ins_index := 1, m_instruction_count := 1\<rparr>"

definition resumed_model :: CorePerfModel where
  "resumed_model =
     stalled_model\<lparr>m_cycle_count := 8, m_current_ins_index := 0,
       m_basic_block_queue := [sentinel_block], m_instruction_count := 3\<rparr>"

definition two_reads_instruction :: Instruction where
  "two_reads_instruction =
     \<lparr> getType = INST_MEMORY_OP,
       getOperands = [\<lparr>m_type = MEMORY, m_direction = READ\<rparr>, \<lparr>m_type = MEMORY, m_direction = READ\<rparr>],
       getCost = 0 \<rparr>"

definition two_reads_model :: CorePerfModel where
  "two_reads_model =
     queueBasicBlock example_env sentinel_block
       (queueDynamicInstruction example_env two_reads_instruction
          (enable example_env CorePerfModel_new))"

definition update_packet :: NetPacket where
  "update_packet =
     \<lparr> sender = 4, receiver = 0, pkt_type = SIM_THREAD_UPDATE_COMM_MAP, pkt_data = [1, 0, 0, 0] \<rparr>"

definition ack_from :: "core_id_t \<Rightarrow> NetPacket" where
  "ack_from c = \<lparr> sender = c, receiver = 0, pkt_type = MCP_RESPONSE_TYPE, pkt_data = [] \<rparr>"

definition request_packet :: NetPacket where
  "request_packet = \<lparr> sender = 2, receiver = 0, pkt_type = MCP_REQUEST_TYPE, pkt_data = [] \<rparr>"

definition answering_network :: Network where
  "answering_network =
     \<lparr> inbox = [ack_from 1, request_packet, ack_from 3, ack_from 5], net_trace = [] \<rparr>"

definition starved_network :: Network where
  "starved_network = \<lparr> inbox = [ack_from 1, request_packet], net_trace = [] \<rparr>"

definition sent_to :: "core_id_t \<Rightarrow> net_event" where
  "sent_to c = NetSend (update_packet\<lparr>sender := 0, receiver := c\<rparr>)"

fun example_tag :: "LCPMessageType \<Rightarrow> SInt32" where
  "example_tag LCP_MESSAGE_QUIT = 0"
| "example_tag LCP_MESSAGE_COMMID_UPDATE = 1"
| "example_tag LCP_MESSAGE_SIMULATOR_FINISHED = 2"
| "example_tag LCP_MESSAGE_SIMULATOR_FINISHED_ACK = 3"
| "example_tag LCP_MESSAGE_THREAD_SPAWN_REQUEST_FROM_REQUESTER = 4"
| "example_tag LCP_MESSAGE_THREAD_SPAWN_REQUEST_FROM_MASTER = 5"
| "example_tag LCP_MESSAGE_THREAD_SPAWN_REPLY_FROM_SLAVE = 6"
| "example_tag LCP_MESSAGE_THREAD_EXIT = 7"
| "example_tag LCP_MESSAGE_THREAD_JOIN_REQUEST = 8"

definition thread_exit_packet :: "Byte list" where
  "thread_exit_packet = [7, 0, 0, 0] @ [3, 0, 0, 0] @ [232, 3, 0, 0, 0, 0, 0, 0]"

definition trailing_bytes :: "Byte list" where
  "trailing_bytes = replicate 20 0 @ [9, 0, 0, 0, 0, 0, 0, 0]"

definition two_reads_resumed :: CorePerfModel where
  "two_reads_resumed =
     two_reads_model\<lparr>m_instruction_count := 1, m_cycle_count := 11,
       m_basic_block_queue := [sentinel_block],
       freed := [FreedBasicBlock \<lparr>insts = [two_reads_instruction], isDynamic = True\<rparr>]\<rparr>"

definition many_reads_instruction :: Instruction where
  "many_reads_instruction =
     \<lparr> getType = INST_MEMORY_OP,
       getOperands = replicate 5000 \<lparr>m_type = MEMORY, m_direction = READ\<rparr>,
       getCost = 0 \<rparr>"

definition many_reads_model :: CorePerfModel where
  "many_reads_model =
     queueBasicBlock example_env sentinel_block
       (queueDynamicInstruction example_env many_reads_instruction
          (enable example_env CorePerfModel_new))"

section \<open>Enable gating\<close>

text \<open>
  Claim C9. On a model whose \<open>enabled\<close> flag is false, \<open>queueInstruction\<close> deletes
  the instruction it is given and leaves the basic-block queue as it is,
  \<open>queueBasicBlock\<close> and \<open>pushDynamicInfo\<close> return the model unchanged, and the cycle
  count is the same after each of the three.
\<close>

theorem disabled_operations_drop:
  "\<not> m_enabled m \<Longrightarrow>
     queueDynamicInstruction env i m = m\<lparr>freed := freed m @ [FreedInstruction i]\<rparr> \<and>
     m_basic_block_queue (queueDynamicInstruction env i m) = m_basic_block_queue m \<and>
     m_cycle_count (queueDynamicInstruction env i m) = m_cycle_count m \<and>
     queueBasicBlock env basic_block m = m \<and>
     pushDynamicInstructionInfo env info m = m"
  by (simp add: queueDynamicInstruction_def queueBasicBlock_def pushDynamicInstructionInfo_def)

theorem disabled_operations_drop_witness:
  "\<not> m_enabled CorePerfModel_new \<and>
   freed (queueDynamicInstruction example_env generic_instruction CorePerfModel_new)
     = [FreedInstruction generic_instruction] \<and>
   m_basic_block_queue (queueDynamicInstruction example_env generic_instruction CorePerfModel_new) = [] \<and>
   m_cycle_count (queueDynamicInstruction example_env generic_instruction CorePerfModel_new) = 0 \<and>
   queueBasicBlock example_env example_block CorePerfModel_new = CorePerfModel_new \<and>
   pushDynamicInstructionInfo example_env memory_read_info CorePerfModel_new = CorePerfModel_new"
proof -
  have d: "\<not> m_enabled CorePerfModel_new"
    by (simp add: CorePerfModel_new_def)
  from disabled_operations_drop [OF d, of example_env generic_instruction example_block memory_read_info]
  show ?thesis
    by (simp add: CorePerfModel_new_def)
qed

text \<open>
  Claim C10. When the process-wide \<open>getEnablePerformanceModeling()\<close> is false, then
  whatever the model's own flag, \<open>queueInstruction\<close> only deletes its argument,
  \<open>queueBasicBlock\<close> and \<open>pushDynamicInfo\<close> return the model unchanged, and
  \<open>popDynamicInfo\<close> returns the model unchanged without reaching either of its two
  assertions (so also on an empty queue).
\<close>

theorem modeling_off_operations_drop:
  "\<not> getEnablePerformanceModeling env \<Longrightarrow>
     queueDynamicInstruction env i m = m\<lparr>freed := freed m @ [FreedInstruction i]\<rparr> \<and>
     queueBasicBlock env basic_block m = m \<and>
     pushDynamicInstructionInfo env info m = m \<and>
     popDynamicInstructionInfo env m = Returns m"
  by (simp add: queueDynamicInstruction_def queueBasicBlock_def pushDynamicInstructionInfo_def
                popDynamicInstructionInfo_def)

theorem modeling_off_operations_drop_witness:
  "\<not> getEnablePerformanceModeling example_env_off \<and>
   m_enabled (enable example_env_off CorePerfModel_new) \<and>
   m_dynamic_info_queue (enable example_env_off CorePerfModel_new) = [] \<and>
   freed (queueDynamicInstruction example_env_off generic_instruction
            (enable example_env_off CorePerfModel_new)) = [FreedInstruction generic_instruction] \<and>
   m_basic_block_queue (queueDynamicInstruction example_env_off generic_instruction
            (enable example_env_off CorePerfModel_new)) = [] \<and>
   queueBasicBlock example_env_off example_block (enable example_env_off CorePerfModel_new)
     = enable example_env_off CorePerfModel_new \<and>
   pushDynamicInstructionInfo example_env_off memory_read_info (enable example_env_off CorePerfModel_new)
     = enable example_env_off CorePerfModel_new \<and>
   popDynamicInstructionInfo example_env_off (enable example_env_off CorePerfModel_new)
     = Returns (enable example_env_off CorePerfModel_new)"
proof -
  have off: "\<not> getEnablePerformanceModeling example_env_off"
    by (simp add: example_env_off_def)
  from modeling_off_operations_drop [OF off, of generic_instruction
         "enable example_env_off CorePerfModel_new" example_block memory_read_info]
  show ?thesis
    by (simp add: example_env_off_def example_env_def enable_def CorePerfModel_new_def)
qed


section \<open>The sentinel block\<close>

lemma iterate_block_throws_frame:
  "iterate_block env bb m = Throws e m' \<Longrightarrow>
     e = DynamicInstructionInfoNotAvailableException \<and>
     m_basic_block_queue m' = m_basic_block_queue m \<and> m_enabled m' = m_enabled m"
proof (induction env bb m rule: iterate_block.induct)
  case (1 env current_bb m)
  show ?case
  proof (cases "m_current_ins_index m < length (insts current_bb)")
    case False
    with "1.prems" show ?thesis by (simp add: iterate_block.simps [of env current_bb m])
  next
    case True
    let ?h = "handleInstruction env (insts current_bb ! m_current_ins_index m) m"
    show ?thesis
    proof (cases ?h)
      case (Returns m1)
      with "1.prems" True have
        r: "iterate_block env current_bb (m1\<lparr>m_current_ins_index := m_current_ins_index m1 + 1\<rparr>)
              = Throws e m'"
        by (simp add: iterate_block.simps [of env current_bb m])
      from "1.IH"(1) [OF True Returns r] handleInstruction_frame [OF Returns]
      show ?thesis by simp
    next
      case (Throws e1 m1)
      from handleInstruction_throws_frame [OF Throws]
      have e1: "e1 = DynamicInstructionInfoNotAvailableException"
        and f: "same_outside_dynamic_info_queue m m1" by simp_all
      from "1.prems" True Throws e1 have "e = DynamicInstructionInfoNotAvailableException" "m' = m1"
        by (simp_all add: iterate_block.simps [of env current_bb m])
      with f show ?thesis by (simp add: same_outside_dynamic_info_queue_def)
    next
      case (Fatal s)
      with "1.prems" True show ?thesis
        by (simp add: iterate_block.simps [of env current_bb m])
    qed
  qed
qed

lemma iterate_short_queue:
  "length (m_basic_block_queue m) \<le> 1 \<Longrightarrow> iterate env m = Returns m"
  by (simp add: iterate.simps [of env m])

lemma iterate_result:
  "case iterate env m of
     Returns m' \<Rightarrow>
       (\<exists>k. m_basic_block_queue m' = drop k (m_basic_block_queue m)) \<and>
       (m_basic_block_queue m \<noteq> [] \<longrightarrow>
          m_basic_block_queue m' \<noteq> [] \<and>
          last (m_basic_block_queue m') = last (m_basic_block_queue m))
   | Throws e m' \<Rightarrow> False
   | Fatal s \<Rightarrow> True"
proof (induction env m rule: iterate.induct)
  case (1 env m)
  show ?case
  proof (cases "length (m_basic_block_queue m) > 1")
    case False
    then have "iterate env m = Returns m" by (simp add: iterate_short_queue)
    moreover have "\<exists>k. m_basic_block_queue m = drop k (m_basic_block_queue m)"
      by (rule exI [of _ 0]) simp
    ultimately show ?thesis by simp
  next
    case True
    let ?bb = "hd (m_basic_block_queue m)"
    show ?thesis
    proof (cases "iterate_block env ?bb m")
      case (Returns m1)
      define m2 where
        "m2 = m1\<lparr>freed := (if isDynamic ?bb then freed m1 @ [FreedBasicBlock ?bb] else freed m1),
                  m_basic_block_queue := tl (m_basic_block_queue m1),
                  m_current_ins_index := 0\<rparr>"
      from iterate_block_frame [OF Returns]
      have q: "m_basic_block_queue m2 = tl (m_basic_block_queue m)" by (simp add: m2_def)
      have it: "iterate env m = iterate env m2"
        using True Returns by (simp add: iterate.simps [of env m] Let_def m2_def)
      have ih: "case iterate env m2 of
         Returns m' \<Rightarrow>
           (\<exists>k. m_basic_block_queue m' = drop k (m_basic_block_queue m2)) \<and>
           (m_basic_block_queue m2 \<noteq> [] \<longrightarrow>
              m_basic_block_queue m' \<noteq> [] \<and>
              last (m_basic_block_queue m') = last (m_basic_block_queue m2))
         | Throws e m' \<Rightarrow> False
         | Fatal s \<Rightarrow> True"
        using "1.IH" [OF True refl Returns] unfolding m2_def .
      from True have ne: "tl (m_basic_block_queue m) \<noteq> []" "m_basic_block_queue m \<noteq> []"
        by (cases "m_basic_block_queue m"; auto)+
      then have l: "last (tl (m_basic_block_queue m)) = last (m_basic_block_queue m)"
        by (simp add: last_tl)
      show ?thesis
      proof (cases "iterate env m2")
        case (Returns m')
        with ih q obtain k where k: "m_basic_block_queue m' = drop k (tl (m_basic_block_queue m))"
          and n: "m_basic_block_queue m' \<noteq> []"
          and l': "last (m_basic_block_queue m') = last (tl (m_basic_block_queue m))"
          using ne by auto
        from k have "m_basic_block_queue m' = drop (Suc k) (m_basic_block_queue m)"
          by (simp add: drop_Suc)
        then have "\<exists>k. m_basic_block_queue m' = drop k (m_basic_block_queue m)" ..
        with Returns it n l l' show ?thesis by simp
      next
        case (Throws e m')
        with ih show ?thesis by simp
      next
        case (Fatal s)
        with it show ?thesis by simp
      qed
    next
      case (Throws e m1)
      from iterate_block_throws_frame [OF Throws]
      have e: "e = DynamicInstructionInfoNotAvailableException"
        and q: "m_basic_block_queue m1 = m_basic_block_queue m" by simp_all
      have "iterate env m = Returns m1"
        using True Throws e by (simp add: iterate.simps [of env m] Let_def)
      moreover have "\<exists>k. m_basic_block_queue m1 = drop k (m_basic_block_queue m)"
        using q by (intro exI [of _ 0]) simp
      ultimately show ?thesis using q by simp
    next
      case (Fatal s)
      then have "iterate env m = Fatal s"
        using True by (simp add: iterate.simps [of env m] Let_def)
      then show ?thesis by simp
    qed
  qed
qed

text \<open>
  Claim C5. \<open>iterate\<close> works only while more than one block is queued: on an empty
  queue and on a queue of exactly one block it returns the model as it is; and whenever
  it returns, the queue it leaves is what remains of the old queue after dropping some
  blocks from the front, never the last one, so a queue that was not empty keeps at
  least its trailing block. It never ends with an exception; the only other way out is
  a failed assertion.
\<close>

theorem iterate_sentinel:
  "(m_basic_block_queue m = [] \<longrightarrow> iterate env m = Returns m) \<and>
   (length (m_basic_block_queue m) = 1 \<longrightarrow> iterate env m = Returns m) \<and>
   (case iterate env m of
      Returns m' \<Rightarrow>
        (\<exists>k. m_basic_block_queue m' = drop k (m_basic_block_queue m)) \<and>
        (m_basic_block_queue m \<noteq> [] \<longrightarrow>
           m_basic_block_queue m' \<noteq> [] \<and>
           last (m_basic_block_queue m') = last (m_basic_block_queue m))
    | Throws e m' \<Rightarrow> False
    | Fatal s \<Rightarrow> True)"
proof (intro conjI impI)
  assume "m_basic_block_queue m = []"
  then show "iterate env m = Returns m" by (simp add: iterate_short_queue)
next
  assume "length (m_basic_block_queue m) = 1"
  then show "iterate env m = Returns m" by (simp add: iterate_short_queue)
next
  show "case iterate env m of
      Returns m' \<Rightarrow>
        (\<exists>k. m_basic_block_queue m' = drop k (m_basic_block_queue m)) \<and>
        (m_basic_block_queue m \<noteq> [] \<longrightarrow>
           m_basic_block_queue m' \<noteq> [] \<and>
           last (m_basic_block_queue m') = last (m_basic_block_queue m))
    | Throws e m' \<Rightarrow> False
    | Fatal s \<Rightarrow> True"
    by (rule iterate_result)
qed

theorem iterate_sentinel_witness:
  "m_basic_block_queue CorePerfModel_new = [] \<and>
   iterate example_env CorePerfModel_new = Returns CorePerfModel_new \<and>
   length (m_basic_block_queue one_block_model) = 1 \<and>
   iterate example_env one_block_model = Returns one_block_model \<and>
   m_basic_block_queue stalled_model = [example_block, sentinel_block] \<and>
   (\<exists>m'. iterate example_env
           (pushDynamicInstructionInfo example_env memory_read_info stalled_model) = Returns m' \<and>
         m_basic_block_queue m' = [sentinel_block])"
proof -
  have e: "m_basic_block_queue CorePerfModel_new = []"
    by (simp add: CorePerfModel_new_def)
  have o: "length (m_basic_block_queue one_block_model) = 1"
    by (simp add: one_block_model_def queueBasicBlock_def enable_def example_env_def
                  CorePerfModel_new_def)
  have s: "m_basic_block_queue stalled_model = [example_block, sentinel_block]"
    by (simp add: stalled_model_def queueBasicBlock_def enable_def example_env_def
                  CorePerfModel_new_def)
  let ?m = "pushDynamicInstructionInfo example_env memory_read_info stalled_model"
  have q: "m_basic_block_queue ?m = [example_block, sentinel_block]"
    using s by (simp add: pushDynamicInstructionInfo_def)
  let ?m' = "stalled_model\<lparr>m_cycle_count := 8, m_current_ins_index := 0,
               m_basic_block_queue := [sentinel_block], m_instruction_count := 3\<rparr>"
  have m': "iterate example_env ?m = Returns ?m'"
    by code_simp
  have l: "length (m_basic_block_queue ?m') = 1" by simp
  from iterate_sentinel [of ?m example_env] m' q
  have "last (m_basic_block_queue ?m') = sentinel_block" by simp
  with l have "m_basic_block_queue ?m' = [sentinel_block]"
    by (cases "m_basic_block_queue ?m'") auto
  with m' have "\<exists>m'. iterate example_env ?m = Returns m' \<and> m_basic_block_queue m' = [sentinel_block]"
    by blast
  with e o s iterate_sentinel [of CorePerfModel_new example_env]
    iterate_sentinel [of one_block_model example_env]
  show ?thesis by simp
qed


section \<open>Queues of a disabled model\<close>

definition idle :: "CorePerfModel \<Rightarrow> bool" where
  "idle m = (\<not> m_enabled m \<and> m_basic_block_queue m = [] \<and> m_dynamic_info_queue m = [])"

lemma step_idle:
  assumes "idle m" and "op \<noteq> OpEnable"
  shows "\<exists>m'. step env op m = Returns m' \<and> idle m'"
proof (cases op)
  case OpIterate
  from assms(1) have "iterate env m = Returns m"
    by (simp add: idle_def iterate.simps [of env m])
  with OpIterate assms(1) show ?thesis by simp
qed (use assms in \<open>auto simp: idle_def disable_def setCycleCount_def recomputeAverageFrequency_def
       queueDynamicInstruction_def queueBasicBlock_def pushDynamicInstructionInfo_def
       popDynamicInstructionInfo_def\<close>)

lemma run_idle:
  "idle m \<Longrightarrow> OpEnable \<notin> set ops \<Longrightarrow> \<exists>m'. run env ops m = Returns m' \<and> idle m'"
proof (induction ops arbitrary: m)
  case Nil
  then show ?case by simp
next
  case (Cons op ops)
  from Cons.prems have "op \<noteq> OpEnable" by auto
  from step_idle [OF Cons.prems(1) this, of env] obtain m1 where
    s: "step env op m = Returns m1" and i: "idle m1" by blast
  from Cons.prems have "OpEnable \<notin> set ops" by simp
  from Cons.IH [OF i this] s show ?case by simp
qed

text \<open>
  Claim C4, as stated, fails: \<open>disable\<close> clears the flag and nothing else, so what
  was queued while the model was enabled is still queued afterwards. The run below
  reaches, from the constructed model, a state with \<open>enabled\<close> false and both queues
  non-empty.
\<close>

theorem disabled_queues_nonempty_counterexample:
  "run example_env
     [OpEnable, OpQueueBasicBlock example_block, OpPushDynamicInstructionInfo memory_read_info,
      OpDisable] CorePerfModel_new = Returns disabled_with_work \<and>
   \<not> m_enabled disabled_with_work \<and>
   m_basic_block_queue disabled_with_work \<noteq> [] \<and>
   m_dynamic_info_queue disabled_with_work \<noteq> []"
  by (simp add: enable_def disable_def queueBasicBlock_def pushDynamicInstructionInfo_def
                example_env_def CorePerfModel_new_def disabled_with_work_def)

text \<open>
  Claim C4, amended. From a state with \<open>enabled\<close> false and both queues empty, the
  constructed model among them, every run of operations other than \<open>enable\<close> returns
  (no assertion fails) a state with \<open>enabled\<close> false and both queues empty.
\<close>

theorem queues_empty_until_enabled:
  "\<not> m_enabled m \<Longrightarrow> m_basic_block_queue m = [] \<Longrightarrow> m_dynamic_info_queue m = [] \<Longrightarrow>
   OpEnable \<notin> set ops \<Longrightarrow>
   \<exists>m'. run env ops m = Returns m' \<and> \<not> m_enabled m' \<and>
        m_basic_block_queue m' = [] \<and> m_dynamic_info_queue m' = []"
  using run_idle [of m ops env] by (simp add: idle_def)

theorem queues_empty_until_enabled_witness:
  "\<exists>m'. run example_env
          [OpQueueBasicBlock example_block, OpPushDynamicInstructionInfo memory_read_info,
           OpQueueDynamicInstruction generic_instruction, OpDisable, OpIterate,
           OpPopDynamicInstructionInfo] CorePerfModel_new = Returns m' \<and>
        \<not> m_enabled m' \<and> m_basic_block_queue m' = [] \<and> m_dynamic_info_queue m' = []"
proof -
  have "\<not> m_enabled CorePerfModel_new" "m_basic_block_queue CorePerfModel_new = []"
    "m_dynamic_info_queue CorePerfModel_new = []"
    by (simp_all add: CorePerfModel_new_def)
  then show ?thesis
    by (rule queues_empty_until_enabled) simp
qed

section \<open>The soft cap on the dynamic-info queue\<close>

lemma push_funpow:
  "m_enabled m \<Longrightarrow> getEnablePerformanceModeling env \<Longrightarrow>
     m_enabled ((pushDynamicInstructionInfo env i ^^ n) m) \<and>
     m_dynamic_info_queue ((pushDynamicInstructionInfo env i ^^ n) m)
       = m_dynamic_info_queue m @ replicate n i"
proof (induction n)
  case 0
  then show ?case by simp
next
  case (Suc n)
  then show ?case
    by (simp add: pushDynamicInstructionInfo_def replicate_append_same)
qed

lemma full_model_queue:
  "m_enabled full_model \<and> m_dynamic_info_queue full_model = replicate 5000 memory_read_info"
proof -
  have "m_enabled (enable example_env CorePerfModel_new)"
    "getEnablePerformanceModeling example_env"
    "m_dynamic_info_queue (enable example_env CorePerfModel_new) = []"
    by (simp_all add: enable_def example_env_def CorePerfModel_new_def)
  with push_funpow [where m = "enable example_env CorePerfModel_new" and env = example_env
      and i = memory_read_info and n = 5000]
  show ?thesis by (simp add: full_model_def)
qed

text \<open>
  Claim C7, as stated, fails: \<open>pushDynamicInstructionInfo\<close> has no assertion, so
  5001 pushes on an enabled model leave 5001 entries in the queue and nothing
  terminates.
\<close>

theorem soft_cap_exceeded_counterexample:
  "length (m_dynamic_info_queue
     ((pushDynamicInstructionInfo example_env memory_read_info ^^ 5001)
        (enable example_env CorePerfModel_new))) = 5001"
proof -
  have "m_enabled (enable example_env CorePerfModel_new)"
    "getEnablePerformanceModeling example_env"
    "m_dynamic_info_queue (enable example_env CorePerfModel_new) = []"
    by (simp_all add: enable_def example_env_def CorePerfModel_new_def)
  with push_funpow [where m = "enable example_env CorePerfModel_new" and env = example_env
      and i = memory_read_info and n = 5001]
  show ?thesis by simp
qed

text \<open>
  Claim C7, amended. The cap is checked by the consumers only. With 5000 or more
  entries queued, \<open>getDynamicInstructionInfo\<close> fails its assertion, and so does
  \<open>popDynamicInstructionInfo\<close> on an enabled model with performance modelling on.
  \<open>pushDynamicInstructionInfo\<close> on such a model always appends its argument,
  whatever the length of the queue.
\<close>

theorem soft_cap_checked_by_consumers_only:
  "(5000 \<le> length (m_dynamic_info_queue m) \<longrightarrow>
      getDynamicInstructionInfo m = Fatal ''Dynamic info queue is growing too big.'' \<and>
      (m_enabled m \<and> getEnablePerformanceModeling env \<longrightarrow>
         popDynamicInstructionInfo env m = Fatal ''Dynamic info queue is growing too big.'')) \<and>
   (m_enabled m \<and> getEnablePerformanceModeling env \<longrightarrow>
      m_dynamic_info_queue (pushDynamicInstructionInfo env i m) = m_dynamic_info_queue m @ [i])"
  by (auto simp: getDynamicInstructionInfo_def popDynamicInstructionInfo_def
                 pushDynamicInstructionInfo_def)

theorem soft_cap_checked_by_consumers_only_witness:
  "length (m_dynamic_info_queue full_model) = 5000 \<and>
   getDynamicInstructionInfo full_model = Fatal ''Dynamic info queue is growing too big.'' \<and>
   popDynamicInstructionInfo example_env full_model = Fatal ''Dynamic info queue is growing too big.'' \<and>
   length (m_dynamic_info_queue (pushDynamicInstructionInfo example_env memory_read_info full_model))
     = 5001"
proof -
  have l: "length (m_dynamic_info_queue full_model) = 5000" and e: "m_enabled full_model"
    by (simp_all add: full_model_queue)
  have g: "getEnablePerformanceModeling example_env"
    by (simp add: example_env_def)
  from soft_cap_checked_by_consumers_only [where m = full_model and env = example_env
      and i = memory_read_info] l e g
  show ?thesis by simp
qed


section \<open>The cost of an instruction in the Magic-PEP model\<close>

lemma memory_operands_simps [simp]:
  "memory_operands [] = []"
  "m_type oper = MEMORY \<Longrightarrow> memory_operands (oper # ops) = oper # memory_operands ops"
  "m_type oper \<noteq> MEMORY \<Longrightarrow> memory_operands (oper # ops) = memory_operands ops"
  by (simp_all add: memory_operands_def)

text \<open>One memory operand on an enabled model, spelled out.\<close>

lemma handleOperands_memory_enabled:
  assumes "m_type oper = MEMORY" "m_enabled m" "getEnablePerformanceModeling env"
  shows "handleOperands env (oper # ops) c m =
     (if m_dynamic_info_queue m = [] then Throws DynamicInstructionInfoNotAvailableException m
      else if \<not> length (m_dynamic_info_queue m) < 5000
        then Fatal ''Dynamic info queue is growing too big.''
      else if info_type (hd (m_dynamic_info_queue m)) \<noteq> expected_info_type oper
        then Fatal (if m_direction oper = READ
                    then ''Expected memory read info, got: %d.''
                    else ''Expected memory write info, got: %d.'')
      else handleOperands env ops (c + memory_info_latency (hd (m_dynamic_info_queue m)))
             (m\<lparr>m_dynamic_info_queue := tl (m_dynamic_info_queue m)\<rparr>))"
  using assms
  by (simp add: getDynamicInstructionInfo_def popDynamicInstructionInfo_def expected_info_type_def)

lemma handleOperands_enabled_returns:
  "m_enabled m \<Longrightarrow> getEnablePerformanceModeling env \<Longrightarrow>
   handleOperands env ops c m = Returns (c', m') \<Longrightarrow>
     map info_type (take (length (memory_operands ops)) (m_dynamic_info_queue m))
       = map expected_info_type (memory_operands ops) \<and>
     m_dynamic_info_queue m' = drop (length (memory_operands ops)) (m_dynamic_info_queue m) \<and>
     c' = c + sum_list (map memory_info_latency
                         (take (length (memory_operands ops)) (m_dynamic_info_queue m)))"
proof (induction ops arbitrary: c m)
  case Nil
  then show ?case by simp
next
  case (Cons oper ops)
  show ?case
  proof (cases "m_type oper = MEMORY")
    case False
    with Cons.prems have "handleOperands env ops c m = Returns (c', m')" by simp
    from Cons.IH [OF Cons.prems(1,2) this] False show ?thesis by simp
  next
    case True
    let ?q = "m_dynamic_info_queue m"
    let ?m1 = "m\<lparr>m_dynamic_info_queue := tl ?q\<rparr>"
    from Cons.prems(3) have ne: "?q \<noteq> []"
      and ty: "info_type (hd ?q) = expected_info_type oper"
      and r: "handleOperands env ops (c + memory_info_latency (hd ?q)) ?m1 = Returns (c', m')"
      unfolding handleOperands_memory_enabled [OF True Cons.prems(1,2)]
      by (simp_all split: if_splits)
    have en: "m_enabled ?m1" using Cons.prems(1) by simp
    from ne obtain x xs where q: "?q = x # xs" by (cases ?q) auto
    from Cons.IH [OF en Cons.prems(2) r] ty True q show ?thesis
      by (simp add: add.assoc)
  qed
qed

lemma handleOperands_mismatch_fatal:
  "m_enabled m \<Longrightarrow> getEnablePerformanceModeling env \<Longrightarrow>
   j < length (memory_operands ops) \<Longrightarrow> j < length (m_dynamic_info_queue m) \<Longrightarrow>
   info_type (m_dynamic_info_queue m ! j) \<noteq> expected_info_type (memory_operands ops ! j) \<Longrightarrow>
   \<exists>s. handleOperands env ops c m = Fatal s"
proof (induction ops arbitrary: c m j)
  case Nil
  then show ?case by simp
next
  case (Cons oper ops)
  show ?case
  proof (cases "m_type oper = MEMORY")
    case False
    with Cons.prems Cons.IH [of m j c] show ?thesis by simp
  next
    case True
    let ?q = "m_dynamic_info_queue m"
    let ?m1 = "m\<lparr>m_dynamic_info_queue := tl ?q\<rparr>"
    from Cons.prems(4) obtain x xs where q: "?q = x # xs" by (cases ?q) auto
    show ?thesis
    proof (cases "length ?q < 5000 \<and> info_type (hd ?q) = expected_info_type oper")
      case False
      then show ?thesis
        unfolding handleOperands_memory_enabled [OF True Cons.prems(1,2)]
        using q by auto
    next
      case ok: True
      with Cons.prems(5) True q obtain j' where j: "j = Suc j'"
        by (cases j) auto
      have en: "m_enabled ?m1" using Cons.prems(1) by simp
      from Cons.prems(3,4,5) True q j
      have "j' < length (memory_operands ops)" "j' < length (m_dynamic_info_queue ?m1)"
        "info_type (m_dynamic_info_queue ?m1 ! j') \<noteq> expected_info_type (memory_operands ops ! j')"
        by simp_all
      from Cons.IH [OF en Cons.prems(2) this]
      show ?thesis
        unfolding handleOperands_memory_enabled [OF True Cons.prems(1,2)]
        using ok q by simp
    qed
  qed
qed

lemma handleOperands_all_available:
  "m_enabled m \<Longrightarrow> getEnablePerformanceModeling env \<Longrightarrow>
   length (m_dynamic_info_queue m) < 5000 \<Longrightarrow>
   map info_type (take (length (memory_operands ops)) (m_dynamic_info_queue m))
     = map expected_info_type (memory_operands ops) \<Longrightarrow>
   handleOperands env ops c m =
     Returns (c + sum_list (map memory_info_latency
                              (take (length (memory_operands ops)) (m_dynamic_info_queue m))),
              m\<lparr>m_dynamic_info_queue :=
                   drop (length (memory_operands ops)) (m_dynamic_info_queue m)\<rparr>)"
proof (induction ops arbitrary: c m)
  case Nil
  then show ?case by simp
next
  case (Cons oper ops)
  show ?case
  proof (cases "m_type oper = MEMORY")
    case False
    with Cons.prems Cons.IH [of m c] show ?thesis by simp
  next
    case True
    let ?q = "m_dynamic_info_queue m"
    let ?m1 = "m\<lparr>m_dynamic_info_queue := tl ?q\<rparr>"
    from Cons.prems(4) True obtain x xs where q: "?q = x # xs"
      by (cases ?q) auto
    have en: "m_enabled ?m1" using Cons.prems(1) by simp
    from Cons.prems(3,4) True q
    have "length (m_dynamic_info_queue ?m1) < 5000"
      "map info_type (take (length (memory_operands ops)) (m_dynamic_info_queue ?m1))
         = map expected_info_type (memory_operands ops)"
      "info_type x = expected_info_type oper"
      by simp_all
    with Cons.IH [OF en Cons.prems(2), of "c + memory_info_latency x"] True q Cons.prems(3)
    show ?thesis
      unfolding handleOperands_memory_enabled [OF True Cons.prems(1,2)]
      by (simp add: add.assoc)
  qed
qed

lemma isModeled_iff: "isModeled t \<longleftrightarrow> t \<in> {INST_RECV, INST_SYNC, INST_SPAWN}"
  by (cases t) (simp_all add: isModeled_def)

text \<open>
  Claim C2, as stated, fails: \<open>popDynamicInstructionInfo\<close> returns at once on a
  model that is not enabled, while \<open>getDynamicInstructionInfo\<close> and \<open>iterate\<close> do
  not look at the flag. In the run below an instruction with one memory operand is
  queued and its fact pushed while the model is enabled; the model is then disabled and
  \<open>iterate\<close> called. The instruction is handled (it is counted, and the cycle count
  grows by the latency 5 plus 1), yet the fact is still in the queue: nothing was
  popped for the memory operand.
\<close>

theorem nothing_popped_when_disabled_counterexample:
  "run example_env
     [OpEnable, OpQueueDynamicInstruction memory_read_instruction, OpQueueBasicBlock sentinel_block,
      OpPushDynamicInstructionInfo memory_read_info, OpDisable, OpIterate] CorePerfModel_new
     = Returns unpopped_model \<and>
   length (memory_operands (getOperands memory_read_instruction)) = 1 \<and>
   m_instruction_count unpopped_model = 1 \<and>
   m_dynamic_info_queue unpopped_model = [memory_read_info]"
proof -
  have "run example_env
     [OpEnable, OpQueueDynamicInstruction memory_read_instruction, OpQueueBasicBlock sentinel_block,
      OpPushDynamicInstructionInfo memory_read_info, OpDisable, OpIterate] CorePerfModel_new
     = Returns unpopped_model"
    by code_simp
  then show ?thesis
    by (simp add: unpopped_model_def memory_read_instruction_def)
qed

text \<open>
  Claim C2, amended. On a model that is enabled, with performance modelling on: when
  \<open>handleInstruction\<close> returns, the queue held at least one fact per memory operand
  of the instruction; the first \<open>k\<close> facts (\<open>k\<close> the number of memory operands)
  were of the variants the operands ask for, in operand order; exactly these \<open>k\<close>
  facts have been popped; and the cycle count has grown, in 64-bit arithmetic, by the
  sum of their latencies plus the static cost for the types \<open>RECV\<close>, \<open>SYNC\<close>,
  \<open>SPAWN\<close> and plus 1 for every other type. When a queued fact is not of the variant
  its memory operand asks for, the call ends in a failed assertion.
\<close>

theorem magicpep_handleInstruction_cost:
  assumes "m_enabled m" and "getEnablePerformanceModeling env"
  shows "(\<forall>m'. handleInstruction env ins m = Returns m' \<longrightarrow>
            length (m_dynamic_info_queue m) \<ge> length (memory_operands (getOperands ins)) \<and>
            map info_type (take (length (memory_operands (getOperands ins))) (m_dynamic_info_queue m))
              = map expected_info_type (memory_operands (getOperands ins)) \<and>
            m_dynamic_info_queue m'
              = drop (length (memory_operands (getOperands ins))) (m_dynamic_info_queue m) \<and>
            m_cycle_count m' = m_cycle_count m +
              (sum_list (map memory_info_latency
                 (take (length (memory_operands (getOperands ins))) (m_dynamic_info_queue m)))
               + (if getType ins \<in> {INST_RECV, INST_SYNC, INST_SPAWN} then getCost ins else 1))) \<and>
         ((\<exists>j. j < length (memory_operands (getOperands ins)) \<and> j < length (m_dynamic_info_queue m) \<and>
               info_type (m_dynamic_info_queue m ! j)
                 \<noteq> expected_info_type (memory_operands (getOperands ins) ! j)) \<longrightarrow>
            (\<exists>s. handleInstruction env ins m = Fatal s))"
proof (intro conjI allI impI)
  fix m'
  assume r: "handleInstruction env ins m = Returns m'"
  let ?k = "length (memory_operands (getOperands ins))"
  let ?q = "m_dynamic_info_queue m"
  from r obtain c m1 where
    h: "handleOperands env (getOperands ins) 0 m = Returns (c, m1)" and
    m': "m' = m1\<lparr>m_instruction_count := m_instruction_count m1 + 1,
                 m_cycle_count := m_cycle_count m1 +
                   (if isModeled (getType ins) then c + getCost ins else c + 1)\<rparr>"
    by (auto simp: handleInstruction_def Let_def split: outcome.splits prod.splits)
  from handleOperands_enabled_returns [OF assms h]
  have ty: "map info_type (take ?k ?q) = map expected_info_type (memory_operands (getOperands ins))"
    and q: "m_dynamic_info_queue m1 = drop ?k ?q"
    and c: "c = sum_list (map memory_info_latency (take ?k ?q))"
    by simp_all
  from handleOperands_frame [OF h] have cc: "m_cycle_count m1 = m_cycle_count m"
    by (simp add: same_outside_dynamic_info_queue_def)
  from ty have "length (take ?k ?q) = ?k"
    using length_map by metis
  then show "?k \<le> length ?q" by simp
  show "map info_type (take ?k ?q) = map expected_info_type (memory_operands (getOperands ins))"
    by (rule ty)
  show "m_dynamic_info_queue m' = drop ?k ?q"
    using m' q by simp
  show "m_cycle_count m' = m_cycle_count m +
          (sum_list (map memory_info_latency (take ?k ?q))
           + (if getType ins \<in> {INST_RECV, INST_SYNC, INST_SPAWN} then getCost ins else 1))"
    using m' cc c by (simp add: isModeled_iff)
next
  assume "\<exists>j. j < length (memory_operands (getOperands ins)) \<and> j < length (m_dynamic_info_queue m) \<and>
               info_type (m_dynamic_info_queue m ! j)
                 \<noteq> expected_info_type (memory_operands (getOperands ins) ! j)"
  then obtain j where "j < length (memory_operands (getOperands ins))"
    "j < length (m_dynamic_info_queue m)"
    "info_type (m_dynamic_info_queue m ! j) \<noteq> expected_info_type (memory_operands (getOperands ins) ! j)"
    by blast
  from handleOperands_mismatch_fatal [OF assms this, of 0]
  show "\<exists>s. handleInstruction env ins m = Fatal s"
    by (auto simp: handleInstruction_def)
qed

theorem magicpep_handleInstruction_cost_witness:
  "m_enabled supplied_model \<and> getEnablePerformanceModeling example_env \<and>
   m_dynamic_info_queue supplied_model = [memory_read_info, memory_write_info, memory_read_info] \<and>
   handleInstruction example_env sync_instruction supplied_model = Returns supplied_model_after \<and>
   m_dynamic_info_queue supplied_model_after = [memory_read_info] \<and>
   m_cycle_count supplied_model_after = m_cycle_count supplied_model + (5 + 3 + 7) \<and>
   (\<exists>s. handleInstruction example_env memory_read_instruction mismatched_model = Fatal s)"
proof -
  have e: "m_enabled supplied_model" "m_enabled mismatched_model"
    by (simp_all add: supplied_model_def mismatched_model_def pushDynamicInstructionInfo_def
          enable_def example_env_def CorePerfModel_new_def)
  have g: "getEnablePerformanceModeling example_env"
    by (simp add: example_env_def)
  have q: "m_dynamic_info_queue supplied_model = [memory_read_info, memory_write_info, memory_read_info]"
    "m_dynamic_info_queue mismatched_model = [memory_write_info]"
    by (simp_all add: supplied_model_def mismatched_model_def pushDynamicInstructionInfo_def
          enable_def example_env_def CorePerfModel_new_def)
  have r: "handleInstruction example_env sync_instruction supplied_model = Returns supplied_model_after"
    by code_simp
  have o: "memory_operands (getOperands memory_read_instruction) = [\<lparr>m_type = MEMORY, m_direction = READ\<rparr>]"
    "memory_operands (getOperands sync_instruction)
       = [\<lparr>m_type = MEMORY, m_direction = READ\<rparr>, \<lparr>m_type = MEMORY, m_direction = WRITE\<rparr>]"
    by (simp_all add: memory_read_instruction_def sync_instruction_def)
  have mm: "\<exists>j. j < length (memory_operands (getOperands memory_read_instruction)) \<and>
          j < length (m_dynamic_info_queue mismatched_model) \<and>
          info_type (m_dynamic_info_queue mismatched_model ! j)
            \<noteq> expected_info_type (memory_operands (getOperands memory_read_instruction) ! j)"
    by (rule exI [of _ 0]) (simp add: o q memory_write_info_def expected_info_type_def)
  from magicpep_handleInstruction_cost [OF e(1) g, of sync_instruction] r
  have "m_dynamic_info_queue supplied_model_after = [memory_read_info]"
    "m_cycle_count supplied_model_after = m_cycle_count supplied_model + (5 + 3 + 7)"
    by (simp_all add: o q sync_instruction_def memory_read_info_def memory_write_info_def)
  moreover from magicpep_handleInstruction_cost [OF e(2) g, of memory_read_instruction] mm
  have "\<exists>s. handleInstruction example_env memory_read_instruction mismatched_model = Fatal s"
    by blast
  ultimately show ?thesis using e g q r by simp
qed

section \<open>Stall and resume\<close>

lemma iterate_step_returns:
  assumes "1 < length (m_basic_block_queue m)"
    and "m_current_ins_index m < length (insts (hd (m_basic_block_queue m)))"
    and "handleInstruction env (insts (hd (m_basic_block_queue m)) ! m_current_ins_index m) m
           = Returns m'"
  shows "iterate env m = iterate env (m'\<lparr>m_current_ins_index := m_current_ins_index m' + 1\<rparr>)"
proof -
  let ?bb = "hd (m_basic_block_queue m)"
  define m'' where "m'' = m'\<lparr>m_current_ins_index := m_current_ins_index m' + 1\<rparr>"
  from handleInstruction_frame [OF assms(3)]
  have q: "m_basic_block_queue m'' = m_basic_block_queue m" by (simp add: m''_def)
  have b: "iterate_block env ?bb m = iterate_block env ?bb m''"
    using assms(2,3) by (simp add: iterate_block.simps [of env ?bb m] m''_def)
  have "iterate env m = iterate env m''"
    using assms(1) q b
    by (simp add: iterate.simps [of env m] iterate.simps [of env m''] Let_def)
  then show ?thesis by (simp add: m''_def)
qed

lemma iterate_step_stall:
  assumes "1 < length (m_basic_block_queue m)"
    and "m_current_ins_index m < length (insts (hd (m_basic_block_queue m)))"
    and "handleInstruction env (insts (hd (m_basic_block_queue m)) ! m_current_ins_index m) m
           = Throws DynamicInstructionInfoNotAvailableException m1"
  shows "iterate env m = Returns m1"
  using assms
  by (simp add: iterate.simps [of env m] Let_def
                iterate_block.simps [of env "hd (m_basic_block_queue m)" m])

lemma run_pushes_enabled:
  "m_enabled m \<Longrightarrow> getEnablePerformanceModeling env \<Longrightarrow>
     run_pushes env infos m = m\<lparr>m_dynamic_info_queue := m_dynamic_info_queue m @ infos\<rparr>"
  by (induction infos arbitrary: m) (simp_all add: pushDynamicInstructionInfo_def)

lemma handleOperands_cap_fatal:
  "memory_operands ops \<noteq> [] \<Longrightarrow> 5000 \<le> length (m_dynamic_info_queue m) \<Longrightarrow>
     handleOperands env ops c m = Fatal ''Dynamic info queue is growing too big.''"
proof (induction ops arbitrary: c)
  case Nil
  then show ?case by simp
next
  case (Cons oper ops)
  show ?case
  proof (cases "m_type oper = MEMORY")
    case True
    from Cons.prems(2) have "m_dynamic_info_queue m \<noteq> []" by auto
    with True Cons.prems(2) show ?thesis
      by (simp add: getDynamicInstructionInfo_def)
  next
    case False
    with Cons show ?thesis by simp
  qed
qed

lemma iterate_step_fatal:
  assumes "1 < length (m_basic_block_queue m)"
    and "m_current_ins_index m < length (insts (hd (m_basic_block_queue m)))"
    and "handleInstruction env (insts (hd (m_basic_block_queue m)) ! m_current_ins_index m) m
           = Fatal s"
  shows "iterate env m = Fatal s"
  using assms
  by (simp add: iterate.simps [of env m] Let_def
                iterate_block.simps [of env "hd (m_basic_block_queue m)" m])

lemma handleOperands_throws_memory:
  "handleOperands env ops c m = Throws e m' \<Longrightarrow> memory_operands ops \<noteq> []"
  by (induction ops arbitrary: c m) (auto split: if_splits)

lemma handleOperands_empty_queue_throws:
  "memory_operands ops \<noteq> [] \<Longrightarrow> m_dynamic_info_queue m = [] \<Longrightarrow>
     handleOperands env ops c m = Throws DynamicInstructionInfoNotAvailableException m"
  by (induction ops arbitrary: c)
     (auto simp: getDynamicInstructionInfo_def split: if_splits)

text \<open>
  Claim C1, as stated, fails in its second half. An instruction with two memory
  operands stalls on the empty queue; after one matching fact is pushed, the next
  \<open>iterate\<close> starts the instruction over, pops that fact for the first operand,
  stalls at the second, and returns the model exactly as it was before the push: the
  fact is gone, the instruction is not completed and the cursor has not moved.
\<close>

theorem one_push_not_enough_counterexample:
  "m_basic_block_queue two_reads_model
     = [\<lparr>insts = [two_reads_instruction], isDynamic = True\<rparr>, sentinel_block] \<and>
   m_current_ins_index two_reads_model = 0 \<and>
   handleInstruction example_env two_reads_instruction two_reads_model
     = Throws DynamicInstructionInfoNotAvailableException two_reads_model \<and>
   iterate example_env two_reads_model = Returns two_reads_model \<and>
   info_type memory_read_info = expected_info_type (hd (getOperands two_reads_instruction)) \<and>
   m_dynamic_info_queue (pushDynamicInstructionInfo example_env memory_read_info two_reads_model)
     = [memory_read_info] \<and>
   iterate example_env (pushDynamicInstructionInfo example_env memory_read_info two_reads_model)
     = Returns two_reads_model"
proof -
  have "m_basic_block_queue two_reads_model
     = [\<lparr>insts = [two_reads_instruction], isDynamic = True\<rparr>, sentinel_block]"
    "m_current_ins_index two_reads_model = 0"
    "info_type memory_read_info = expected_info_type (hd (getOperands two_reads_instruction))"
    "m_dynamic_info_queue (pushDynamicInstructionInfo example_env memory_read_info two_reads_model)
     = [memory_read_info]"
    by (simp_all add: two_reads_model_def queueBasicBlock_def queueDynamicInstruction_def
          enable_def example_env_def CorePerfModel_new_def pushDynamicInstructionInfo_def
          memory_read_info_def two_reads_instruction_def expected_info_type_def)
  moreover have "handleInstruction example_env two_reads_instruction two_reads_model
     = Throws DynamicInstructionInfoNotAvailableException two_reads_model"
    by code_simp
  moreover have "iterate example_env two_reads_model = Returns two_reads_model"
    by code_simp
  moreover have "iterate example_env
       (pushDynamicInstructionInfo example_env memory_read_info two_reads_model)
     = Returns two_reads_model"
    by code_simp
  ultimately show ?thesis by simp
qed

text \<open>
  Claim C1, amended. Let the instruction under the cursor of the head block throw
  \<open>DynamicInstructionInfoNotAvailableException\<close>. Then \<open>iterate\<close> returns with the
  cursor and the basic-block queue unchanged; when more than one block is queued, what
  it returns is the state of the throw. If moreover more than one block is queued and
  the model is enabled with performance modelling on, then after one fact per memory
  operand of that instruction has been pushed, of the matching variants and in operand
  order, and these facts are fewer than 5000, \<open>handleInstruction\<close> on the same
  instruction returns, having counted the instruction and added the latencies and the
  cost to the cycle count, and the next \<open>iterate\<close> is this step followed by
  \<open>iterate\<close> from the cursor advanced by one. When the facts pushed are 5000 or
  more, the retry fails the soft-cap assertion of \<open>getDynamicInstructionInfo\<close>
  instead, and so does the next \<open>iterate\<close>.
\<close>

theorem stall_and_resume:
  assumes "m_basic_block_queue m \<noteq> []"
    and "m_current_ins_index m < length (insts (hd (m_basic_block_queue m)))"
    and "ins = insts (hd (m_basic_block_queue m)) ! m_current_ins_index m"
    and "handleInstruction env ins m = Throws DynamicInstructionInfoNotAvailableException m1"
  shows "(\<exists>m'. iterate env m = Returns m' \<and>
               m_current_ins_index m' = m_current_ins_index m \<and>
               m_basic_block_queue m' = m_basic_block_queue m) \<and>
         (1 < length (m_basic_block_queue m) \<longrightarrow> iterate env m = Returns m1) \<and>
         (1 < length (m_basic_block_queue m) \<and>
          m_enabled m \<and> getEnablePerformanceModeling env \<and> length infos < 5000 \<and>
          map info_type infos = map expected_info_type (memory_operands (getOperands ins)) \<longrightarrow>
            (let m2 = run_pushes env infos m1;
                 m3 = m1\<lparr>m_instruction_count := m_instruction_count m1 + 1,
                          m_cycle_count := m_cycle_count m1 +
                            (sum_list (map memory_info_latency infos) +
                             (if isModeled (getType ins) then getCost ins else 1))\<rparr>
             in handleInstruction env ins m2 = Returns m3 \<and>
                iterate env m2 =
                  iterate env (m3\<lparr>m_current_ins_index := m_current_ins_index m + 1\<rparr>))) \<and>
         (1 < length (m_basic_block_queue m) \<and>
          m_enabled m \<and> getEnablePerformanceModeling env \<and> 5000 \<le> length infos \<and>
          map info_type infos = map expected_info_type (memory_operands (getOperands ins)) \<longrightarrow>
            handleInstruction env ins (run_pushes env infos m1)
              = Fatal ''Dynamic info queue is growing too big.'' \<and>
            iterate env (run_pushes env infos m1)
              = Fatal ''Dynamic info queue is growing too big.'')"
proof -
  from handleInstruction_throws_frame [OF assms(4)]
  have f: "same_outside_dynamic_info_queue m m1" and e: "m_dynamic_info_queue m1 = []"
    by simp_all
  have i: "m_current_ins_index m1 = m_current_ins_index m"
    using f by (simp add: same_outside_dynamic_info_queue_def)
  have b: "m_basic_block_queue m1 = m_basic_block_queue m"
    using f by (simp add: same_outside_dynamic_info_queue_def)
  have st: "iterate env m = Returns m1" if "1 < length (m_basic_block_queue m)"
    using iterate_step_stall [OF that assms(2)] assms(3,4) by simp
  have part1: "\<exists>m'. iterate env m = Returns m' \<and>
               m_current_ins_index m' = m_current_ins_index m \<and>
               m_basic_block_queue m' = m_basic_block_queue m"
  proof (cases "1 < length (m_basic_block_queue m)")
    case True
    with st i b show ?thesis by simp
  next
    case False
    then have "iterate env m = Returns m" by (simp add: iterate_short_queue)
    then show ?thesis by simp
  qed
  have part2: "1 < length (m_basic_block_queue m) \<longrightarrow> iterate env m = Returns m1"
    using st by blast
  have part3: "1 < length (m_basic_block_queue m) \<and>
          m_enabled m \<and> getEnablePerformanceModeling env \<and> length infos < 5000 \<and>
          map info_type infos = map expected_info_type (memory_operands (getOperands ins)) \<longrightarrow>
            (let m2 = run_pushes env infos m1;
                 m3 = m1\<lparr>m_instruction_count := m_instruction_count m1 + 1,
                          m_cycle_count := m_cycle_count m1 +
                            (sum_list (map memory_info_latency infos) +
                             (if isModeled (getType ins) then getCost ins else 1))\<rparr>
             in handleInstruction env ins m2 = Returns m3 \<and>
                iterate env m2 =
                  iterate env (m3\<lparr>m_current_ins_index := m_current_ins_index m + 1\<rparr>))"
  proof
    assume a: "1 < length (m_basic_block_queue m) \<and>
          m_enabled m \<and> getEnablePerformanceModeling env \<and> length infos < 5000 \<and>
          map info_type infos = map expected_info_type (memory_operands (getOperands ins))"
    define m2 where "m2 = run_pushes env infos m1"
    define m3 where "m3 = m1\<lparr>m_instruction_count := m_instruction_count m1 + 1,
                          m_cycle_count := m_cycle_count m1 +
                            (sum_list (map memory_info_latency infos) +
                             (if isModeled (getType ins) then getCost ins else 1))\<rparr>"
    from f a have en1: "m_enabled m1" by (simp add: same_outside_dynamic_info_queue_def)
    from a have g: "getEnablePerformanceModeling env" by simp
    have m2: "m2 = m1\<lparr>m_dynamic_info_queue := infos\<rparr>"
      using run_pushes_enabled [OF en1 g, of infos] e by (simp add: m2_def)
    then have en2: "m_enabled m2" and q2: "m_dynamic_info_queue m2 = infos"
      using en1 by simp_all
    from a have len: "length (memory_operands (getOperands ins)) = length infos"
      using length_map by metis
    have ops: "handleOperands env (getOperands ins) 0 m2 =
                 Returns (sum_list (map memory_info_latency infos), m1)"
      using handleOperands_all_available [OF en2 g, of "getOperands ins" 0] a q2 len m2 e
      by simp
    have h: "handleInstruction env ins m2 = Returns m3"
      using ops by (simp add: handleInstruction_def m3_def Let_def)
    have q: "1 < length (m_basic_block_queue m2)"
      "m_current_ins_index m2 < length (insts (hd (m_basic_block_queue m2)))"
      "insts (hd (m_basic_block_queue m2)) ! m_current_ins_index m2 = ins"
      using a assms(2,3) i b m2 by simp_all
    have "iterate env m2 = iterate env (m3\<lparr>m_current_ins_index := m_current_ins_index m3 + 1\<rparr>)"
      using iterate_step_returns [OF q(1,2)] h q(3) by simp
    moreover have "m_current_ins_index m3 = m_current_ins_index m"
      using i by (simp add: m3_def)
    ultimately have "iterate env m2 =
        iterate env (m3\<lparr>m_current_ins_index := m_current_ins_index m + 1\<rparr>)" by simp
    with h show "let m2 = run_pushes env infos m1;
                 m3 = m1\<lparr>m_instruction_count := m_instruction_count m1 + 1,
                          m_cycle_count := m_cycle_count m1 +
                            (sum_list (map memory_info_latency infos) +
                             (if isModeled (getType ins) then getCost ins else 1))\<rparr>
             in handleInstruction env ins m2 = Returns m3 \<and>
                iterate env m2 =
                  iterate env (m3\<lparr>m_current_ins_index := m_current_ins_index m + 1\<rparr>)"
      unfolding m2_def m3_def Let_def by simp
  qed
  have part4: "1 < length (m_basic_block_queue m) \<and>
          m_enabled m \<and> getEnablePerformanceModeling env \<and> 5000 \<le> length infos \<and>
          map info_type infos = map expected_info_type (memory_operands (getOperands ins)) \<longrightarrow>
            handleInstruction env ins (run_pushes env infos m1)
              = Fatal ''Dynamic info queue is growing too big.'' \<and>
            iterate env (run_pushes env infos m1)
              = Fatal ''Dynamic info queue is growing too big.''"
  proof
    assume a: "1 < length (m_basic_block_queue m) \<and>
          m_enabled m \<and> getEnablePerformanceModeling env \<and> 5000 \<le> length infos \<and>
          map info_type infos = map expected_info_type (memory_operands (getOperands ins))"
    define m2 where "m2 = run_pushes env infos m1"
    from f a have en1: "m_enabled m1" by (simp add: same_outside_dynamic_info_queue_def)
    from a have g: "getEnablePerformanceModeling env" by simp
    have m2: "m2 = m1\<lparr>m_dynamic_info_queue := infos\<rparr>"
      using run_pushes_enabled [OF en1 g, of infos] e by (simp add: m2_def)
    from assms(4) have "memory_operands (getOperands ins) \<noteq> []"
      by (auto simp: handleInstruction_def split: outcome.splits prod.splits
               dest: handleOperands_throws_memory)
    moreover have "5000 \<le> length (m_dynamic_info_queue m2)" using a m2 by simp
    ultimately have "handleOperands env (getOperands ins) 0 m2
        = Fatal ''Dynamic info queue is growing too big.''"
      by (rule handleOperands_cap_fatal)
    then have h: "handleInstruction env ins m2 = Fatal ''Dynamic info queue is growing too big.''"
      by (simp add: handleInstruction_def)
    have q: "1 < length (m_basic_block_queue m2)"
      "m_current_ins_index m2 < length (insts (hd (m_basic_block_queue m2)))"
      "insts (hd (m_basic_block_queue m2)) ! m_current_ins_index m2 = ins"
      using a assms(2,3) i b m2 by simp_all
    have "iterate env m2 = Fatal ''Dynamic info queue is growing too big.''"
      using iterate_step_fatal [OF q(1,2)] h q(3) by simp
    with h show "handleInstruction env ins (run_pushes env infos m1)
              = Fatal ''Dynamic info queue is growing too big.'' \<and>
            iterate env (run_pushes env infos m1)
              = Fatal ''Dynamic info queue is growing too big.''"
      by (simp add: m2_def)
  qed
  from part1 part2 part3 part4 show ?thesis by blast
qed

theorem stall_and_resume_witness:
  "iterate example_env stalled_at_read = Returns stalled_at_read \<and>
   m_current_ins_index stalled_at_read = 1 \<and>
   m_basic_block_queue stalled_at_read = [example_block, sentinel_block] \<and>
   handleInstruction example_env memory_read_instruction
       (pushDynamicInstructionInfo example_env memory_read_info stalled_at_read)
     = Returns (stalled_at_read\<lparr>m_instruction_count := 2, m_cycle_count := 7\<rparr>) \<and>
   iterate example_env (pushDynamicInstructionInfo example_env memory_read_info stalled_at_read)
     = Returns resumed_model \<and>
   handleInstruction example_env two_reads_instruction
       (run_pushes example_env [memory_read_info, memory_read_info] two_reads_model)
     = Returns (two_reads_model\<lparr>m_instruction_count := 1, m_cycle_count := 11\<rparr>) \<and>
   iterate example_env
       (run_pushes example_env [memory_read_info, memory_read_info] two_reads_model)
     = Returns two_reads_resumed \<and>
   length (memory_operands (getOperands many_reads_instruction)) = 5000 \<and>
   handleInstruction example_env many_reads_instruction
       (run_pushes example_env (replicate 5000 memory_read_info) many_reads_model)
     = Fatal ''Dynamic info queue is growing too big.'' \<and>
   iterate example_env
       (run_pushes example_env (replicate 5000 memory_read_info) many_reads_model)
     = Fatal ''Dynamic info queue is growing too big.''"
proof -
  have q: "m_basic_block_queue stalled_at_read \<noteq> []"
    by (simp add: stalled_at_read_def stalled_model_def queueBasicBlock_def enable_def
                  example_env_def CorePerfModel_new_def)
  have i: "m_current_ins_index stalled_at_read
             < length (insts (hd (m_basic_block_queue stalled_at_read)))"
    by (simp add: stalled_at_read_def stalled_model_def queueBasicBlock_def enable_def
                  example_env_def CorePerfModel_new_def example_block_def)
  have n: "memory_read_instruction
             = insts (hd (m_basic_block_queue stalled_at_read)) ! m_current_ins_index stalled_at_read"
    by (simp add: stalled_at_read_def stalled_model_def queueBasicBlock_def enable_def
                  example_env_def CorePerfModel_new_def example_block_def)
  have t: "handleInstruction example_env memory_read_instruction stalled_at_read
             = Throws DynamicInstructionInfoNotAvailableException stalled_at_read"
    by code_simp
  have e: "1 < length (m_basic_block_queue stalled_at_read) \<and>
           m_enabled stalled_at_read \<and> getEnablePerformanceModeling example_env \<and>
           length [memory_read_info] < 5000 \<and>
           map info_type [memory_read_info]
             = map expected_info_type (memory_operands (getOperands memory_read_instruction))"
    by (simp add: stalled_at_read_def stalled_model_def queueBasicBlock_def enable_def
                  example_env_def CorePerfModel_new_def memory_read_info_def
                  memory_read_instruction_def expected_info_type_def)
  have c: "iterate example_env
             (stalled_at_read\<lparr>m_instruction_count := 2, m_cycle_count := 7,
                               m_current_ins_index := 2\<rparr>) = Returns resumed_model"
    by code_simp
  have v: "m_cycle_count stalled_at_read = 1" "m_instruction_count stalled_at_read = 1"
    "m_current_ins_index stalled_at_read = 1"
    "m_basic_block_queue stalled_at_read = [example_block, sentinel_block]"
    by (simp_all add: stalled_at_read_def stalled_model_def queueBasicBlock_def enable_def
                  example_env_def CorePerfModel_new_def)
  let ?m2 = "pushDynamicInstructionInfo example_env memory_read_info stalled_at_read"
  let ?m3 = "stalled_at_read\<lparr>m_instruction_count := 2, m_cycle_count := 7\<rparr>"
  note sr = stall_and_resume [OF q i n t, of "[memory_read_info]"]
  from sr e have s1: "iterate example_env stalled_at_read = Returns stalled_at_read"
    by blast
  have c1: "isModeled (getType memory_read_instruction) = False"
    "sum_list (map memory_info_latency [memory_read_info]) = 5"
    by (simp_all add: isModeled_def memory_read_instruction_def memory_read_info_def)
  from sr e have "handleInstruction example_env memory_read_instruction
          (run_pushes example_env [memory_read_info] stalled_at_read)
        = Returns (stalled_at_read\<lparr>m_instruction_count := m_instruction_count stalled_at_read + 1,
                     m_cycle_count := m_cycle_count stalled_at_read + (5 + 1)\<rparr>) \<and>
      iterate example_env (run_pushes example_env [memory_read_info] stalled_at_read)
        = iterate example_env
            (stalled_at_read\<lparr>m_instruction_count := m_instruction_count stalled_at_read + 1,
                     m_cycle_count := m_cycle_count stalled_at_read + (5 + 1),
                     m_current_ins_index := m_current_ins_index stalled_at_read + 1\<rparr>)"
    unfolding Let_def c1 by simp
  then have s2: "handleInstruction example_env memory_read_instruction ?m2 = Returns ?m3"
    and s3: "iterate example_env ?m2
               = iterate example_env (?m3\<lparr>m_current_ins_index := 2\<rparr>)"
    unfolding v by (simp_all add: numeral_2_eq_2)
  have first: "iterate example_env stalled_at_read = Returns stalled_at_read \<and>
     m_current_ins_index stalled_at_read = 1 \<and>
     m_basic_block_queue stalled_at_read = [example_block, sentinel_block] \<and>
     handleInstruction example_env memory_read_instruction ?m2 = Returns ?m3 \<and>
     iterate example_env ?m2 = Returns resumed_model"
    using s1 s2 s3 c v(3,4) by simp
  \<comment> \<open>an instruction with two memory operands, after two pushes\<close>
  have tq: "m_basic_block_queue two_reads_model
              = [\<lparr>insts = [two_reads_instruction], isDynamic = True\<rparr>, sentinel_block]"
    and ti: "m_current_ins_index two_reads_model = 0"
    and te: "m_enabled two_reads_model" "m_cycle_count two_reads_model = 0"
      "m_instruction_count two_reads_model = 0"
    by (simp_all add: two_reads_model_def queueBasicBlock_def queueDynamicInstruction_def
          enable_def example_env_def CorePerfModel_new_def)
  have g: "getEnablePerformanceModeling example_env" by (simp add: example_env_def)
  have tt: "handleInstruction example_env two_reads_instruction two_reads_model
              = Throws DynamicInstructionInfoNotAvailableException two_reads_model"
    by code_simp
  have tm: "map info_type [memory_read_info, memory_read_info]
              = map expected_info_type (memory_operands (getOperands two_reads_instruction))"
    "isModeled (getType two_reads_instruction) = False"
    "sum_list (map memory_info_latency [memory_read_info, memory_read_info]) = 10"
    by (simp_all add: two_reads_instruction_def memory_read_info_def expected_info_type_def
          isModeled_def)
  have tc: "iterate example_env
              (two_reads_model\<lparr>m_instruction_count := 1, m_cycle_count := 11,
                                 m_current_ins_index := 1\<rparr>) = Returns two_reads_resumed"
    by code_simp
  from stall_and_resume [where m = two_reads_model and env = example_env
      and ins = two_reads_instruction and ?m1.0 = two_reads_model
      and infos = "[memory_read_info, memory_read_info]"] tq ti te g tt tm
  have "handleInstruction example_env two_reads_instruction
          (run_pushes example_env [memory_read_info, memory_read_info] two_reads_model)
        = Returns (two_reads_model\<lparr>m_instruction_count := 0 + 1, m_cycle_count := 0 + (10 + 1)\<rparr>) \<and>
      iterate example_env
          (run_pushes example_env [memory_read_info, memory_read_info] two_reads_model)
        = iterate example_env
            (two_reads_model\<lparr>m_instruction_count := 0 + 1, m_cycle_count := 0 + (10 + 1),
               m_current_ins_index := 0 + 1\<rparr>)"
    unfolding Let_def by simp
  with tc have second: "handleInstruction example_env two_reads_instruction
          (run_pushes example_env [memory_read_info, memory_read_info] two_reads_model)
        = Returns (two_reads_model\<lparr>m_instruction_count := 1, m_cycle_count := 11\<rparr>) \<and>
      iterate example_env
          (run_pushes example_env [memory_read_info, memory_read_info] two_reads_model)
        = Returns two_reads_resumed"
    by simp
  \<comment> \<open>an instruction with 5000 memory operands, after 5000 pushes\<close>
  have mq: "m_basic_block_queue many_reads_model
              = [\<lparr>insts = [many_reads_instruction], isDynamic = True\<rparr>, sentinel_block]"
    and mi: "m_current_ins_index many_reads_model = 0"
    and me: "m_enabled many_reads_model" "m_dynamic_info_queue many_reads_model = []"
    by (simp_all add: many_reads_model_def queueBasicBlock_def queueDynamicInstruction_def
          enable_def example_env_def CorePerfModel_new_def)
  have mo: "memory_operands (getOperands many_reads_instruction)
              = replicate 5000 \<lparr>m_type = MEMORY, m_direction = READ\<rparr>"
    by (simp add: many_reads_instruction_def memory_operands_def)
  then have mne: "memory_operands (getOperands many_reads_instruction) \<noteq> []"
    by simp
  have mt: "handleInstruction example_env many_reads_instruction many_reads_model
              = Throws DynamicInstructionInfoNotAvailableException many_reads_model"
    using handleOperands_empty_queue_throws [OF mne me(2), of example_env 0]
    by (simp add: handleInstruction_def)
  have mm: "map info_type (replicate 5000 memory_read_info)
              = map expected_info_type (memory_operands (getOperands many_reads_instruction))"
    unfolding mo by (simp add: memory_read_info_def expected_info_type_def)
  from stall_and_resume [where m = many_reads_model and env = example_env
      and ins = many_reads_instruction and ?m1.0 = many_reads_model
      and infos = "replicate 5000 memory_read_info"] mq mi me g mt mm
  have third: "handleInstruction example_env many_reads_instruction
       (run_pushes example_env (replicate 5000 memory_read_info) many_reads_model)
        = Fatal ''Dynamic info queue is growing too big.'' \<and>
      iterate example_env
       (run_pushes example_env (replicate 5000 memory_read_info) many_reads_model)
        = Fatal ''Dynamic info queue is growing too big.''"
    by simp
  have "length (memory_operands (getOperands many_reads_instruction)) = 5000"
    unfolding mo by simp
  with first second third show ?thesis by simp
qed

section \<open>Broadcast to processes\<close>

lemma take_first_match_None:
  "take_first_match [MCP_RESPONSE_TYPE] ps = None \<longleftrightarrow> responses ps = []"
  by (induction ps) (auto simp: responses_def split: option.splits)

lemma take_first_match_Some:
  "take_first_match [MCP_RESPONSE_TYPE] ps = Some (r, rest) \<Longrightarrow>
     responses ps = r # responses rest \<and> not_responses rest = not_responses ps"
  by (induction ps arbitrary: rest)
     (auto simp: responses_def not_responses_def split: option.splits if_splits)

lemma broadcastLoop_completes:
  assumes "\<forall>p \<in> set procs. getCoreListForProcess env p \<noteq> []"
    and "length procs \<le> length (responses (inbox net))"
    and "sender pkt = getMCPCoreNum env"
  shows "\<exists>net'. broadcastLoop env procs pkt net = Completed net' \<and>
           net_trace net' = net_trace net @
             broadcast_events env pkt procs (take (length procs) (responses (inbox net))) \<and>
           responses (inbox net') = drop (length procs) (responses (inbox net)) \<and>
           not_responses (inbox net') = not_responses (inbox net)"
  using assms
proof (induction procs arbitrary: pkt net)
  case Nil
  then show ?case by (simp add: broadcast_events_def)
next
  case (Cons p procs)
  from Cons.prems(1) obtain core cores where c: "getCoreListForProcess env p = core # cores"
    by (cases "getCoreListForProcess env p") auto
  let ?pkt = "pkt\<lparr>receiver := core\<rparr>"
  let ?net = "netSend ?pkt net"
  from Cons.prems(2) have "responses (inbox ?net) \<noteq> []"
    by (auto simp: netSend_def)
  then obtain r rest where t: "take_first_match [MCP_RESPONSE_TYPE] (inbox ?net) = Some (r, rest)"
    using take_first_match_None [of "inbox ?net"] by (cases "take_first_match [MCP_RESPONSE_TYPE] (inbox ?net)") auto
  let ?net2 = "?net\<lparr>inbox := rest, net_trace := net_trace ?net @ [NetRecv r]\<rparr>"
  from take_first_match_Some [OF t]
  have rs: "responses (inbox net) = r # responses rest" and nr: "not_responses rest = not_responses (inbox net)"
    by (simp_all add: netSend_def)
  have step: "broadcastLoop env (p # procs) pkt net = broadcastLoop env procs ?pkt ?net2"
    using c t by (simp add: netRecv_def Let_def)
  have "\<forall>p \<in> set procs. getCoreListForProcess env p \<noteq> []" using Cons.prems(1) by simp
  moreover have "length procs \<le> length (responses (inbox ?net2))"
    using Cons.prems(2) rs by simp
  moreover have "sender ?pkt = getMCPCoreNum env" using Cons.prems(3) by simp
  ultimately obtain net' where
    r1: "broadcastLoop env procs ?pkt ?net2 = Completed net'" and
    r2: "net_trace net' = net_trace ?net2 @
           broadcast_events env ?pkt procs (take (length procs) (responses (inbox ?net2)))" and
    r3: "responses (inbox net') = drop (length procs) (responses (inbox ?net2))" and
    r4: "not_responses (inbox net') = not_responses (inbox ?net2)"
    using Cons.IH [where pkt = ?pkt and net = ?net2] by blast
  have ev: "\<And>q x. send_then_recv env ?pkt q x = send_then_recv env pkt q x"
    by (simp add: send_then_recv_def)
  have first: "[NetSend ?pkt, NetRecv r] = send_then_recv env pkt p r"
    using c Cons.prems(3) by (simp add: send_then_recv_def)
  have "net_trace net' = net_trace net @
          broadcast_events env pkt (p # procs) (take (length (p # procs)) (responses (inbox net)))"
    using r2 rs first by (simp add: broadcast_events_def ev netSend_def)
  with r1 r3 r4 rs nr step show ?case by simp
qed

lemma broadcastLoop_blocks:
  assumes "\<forall>p \<in> set procs. getCoreListForProcess env p \<noteq> []"
    and "length (responses (inbox net)) < length procs"
    and "sender pkt = getMCPCoreNum env"
  shows "\<exists>net'. broadcastLoop env procs pkt net = BlocksInRecv net' \<and>
           net_trace net' = net_trace net @
             broadcast_events env pkt (take (length (responses (inbox net))) procs)
               (responses (inbox net)) @
             [NetSend (pkt\<lparr>receiver :=
                hd (getCoreListForProcess env (procs ! length (responses (inbox net))))\<rparr>)]"
  using assms
proof (induction procs arbitrary: pkt net)
  case Nil
  then show ?case by simp
next
  case (Cons p procs)
  from Cons.prems(1) obtain core cores where c: "getCoreListForProcess env p = core # cores"
    by (cases "getCoreListForProcess env p") auto
  let ?pkt = "pkt\<lparr>receiver := core\<rparr>"
  let ?net = "netSend ?pkt net"
  show ?case
  proof (cases "take_first_match [MCP_RESPONSE_TYPE] (inbox ?net)")
    case None
    then have e: "responses (inbox net) = []"
      by (simp add: take_first_match_None netSend_def)
    have "broadcastLoop env (p # procs) pkt net = BlocksInRecv ?net"
      using c None by (simp add: netRecv_def Let_def)
    moreover have "net_trace ?net = net_trace net @ [NetSend ?pkt]"
      by (simp add: netSend_def)
    ultimately show ?thesis using e c by (simp add: broadcast_events_def)
  next
    case (Some a)
    then obtain r rest where t: "take_first_match [MCP_RESPONSE_TYPE] (inbox ?net) = Some (r, rest)"
      by (cases a) auto
    let ?net2 = "?net\<lparr>inbox := rest, net_trace := net_trace ?net @ [NetRecv r]\<rparr>"
    from take_first_match_Some [OF t]
    have rs: "responses (inbox net) = r # responses rest"
      by (simp_all add: netSend_def)
    have step: "broadcastLoop env (p # procs) pkt net = broadcastLoop env procs ?pkt ?net2"
      using c t by (simp add: netRecv_def Let_def)
    have "\<forall>p \<in> set procs. getCoreListForProcess env p \<noteq> []" using Cons.prems(1) by simp
    moreover have "length (responses (inbox ?net2)) < length procs"
      using Cons.prems(2) rs by simp
    moreover have "sender ?pkt = getMCPCoreNum env" using Cons.prems(3) by simp
    ultimately obtain net' where
      r1: "broadcastLoop env procs ?pkt ?net2 = BlocksInRecv net'" and
      r2: "net_trace net' = net_trace ?net2 @
             broadcast_events env ?pkt (take (length (responses (inbox ?net2))) procs)
               (responses (inbox ?net2)) @
             [NetSend (?pkt\<lparr>receiver :=
                hd (getCoreListForProcess env (procs ! length (responses (inbox ?net2))))\<rparr>)]"
      using Cons.IH [where pkt = ?pkt and net = ?net2] by blast
    have ev: "\<And>q x. send_then_recv env ?pkt q x = send_then_recv env pkt q x"
      by (simp add: send_then_recv_def)
    have first: "[NetSend ?pkt, NetRecv r] = send_then_recv env pkt p r"
      using c Cons.prems(3) by (simp add: send_then_recv_def)
    have "net_trace net' = net_trace net @
             broadcast_events env pkt (take (length (responses (inbox net))) (p # procs))
               (responses (inbox net)) @
             [NetSend (pkt\<lparr>receiver :=
                hd (getCoreListForProcess env ((p # procs) ! length (responses (inbox net))))\<rparr>)]"
      using r2 rs first by (simp add: broadcast_events_def ev netSend_def)
    with r1 step show ?thesis by simp
  qed
qed

text \<open>
  Claim C6. Let every process have at least one core. With \<open>P\<close> processes, if at
  least \<open>P\<close> response packets arrive, the broadcast completes, and what it did on the
  network is exactly, for the processes \<open>0, \<dots>, P - 1\<close> in this order, one send of the
  packet, with the MCP core as sender, to the first core of the process, followed by
  the receipt of one response packet: \<open>P\<close> sends, \<open>P\<close> responses taken, every
  send after the first after the receipt that follows the previous send, and no other
  packet taken from the inbox. If fewer than \<open>P\<close> responses arrive, the broadcast
  does not complete: it blocks in the receive after the send to the first process that
  gets no response.
\<close>

theorem broadcast_to_processes_serialised:
  assumes "\<forall>p < getProcessCount env. getCoreListForProcess env p \<noteq> []"
  shows "(getProcessCount env \<le> length (responses (inbox net)) \<longrightarrow>
           (\<exists>net'. broadcastPacketToProcesses env pkt net = Completed net' \<and>
              net_trace net' = net_trace net @
                broadcast_events env pkt [0..<getProcessCount env]
                  (take (getProcessCount env) (responses (inbox net))) \<and>
              responses (inbox net') = drop (getProcessCount env) (responses (inbox net)) \<and>
              not_responses (inbox net') = not_responses (inbox net))) \<and>
         (length (responses (inbox net)) < getProcessCount env \<longrightarrow>
           (\<exists>net'. broadcastPacketToProcesses env pkt net = BlocksInRecv net' \<and>
              net_trace net' = net_trace net @
                broadcast_events env pkt [0..<length (responses (inbox net))]
                  (responses (inbox net)) @
                [NetSend (pkt\<lparr>sender := getMCPCoreNum env,
                   receiver := hd (getCoreListForProcess env (length (responses (inbox net))))\<rparr>)]))"
proof (intro conjI impI)
  let ?pkt = "pkt\<lparr>sender := getMCPCoreNum env\<rparr>"
  have c: "\<forall>p \<in> set [0..<getProcessCount env]. getCoreListForProcess env p \<noteq> []"
    using assms by simp
  have s: "sender ?pkt = getMCPCoreNum env" by simp
  have ev: "\<And>procs rs. broadcast_events env ?pkt procs rs = broadcast_events env pkt procs rs"
    by (simp add: broadcast_events_def send_then_recv_def)
  {
    assume "getProcessCount env \<le> length (responses (inbox net))"
    then have "length [0..<getProcessCount env] \<le> length (responses (inbox net))" by simp
    from broadcastLoop_completes [OF c this s]
    show "\<exists>net'. broadcastPacketToProcesses env pkt net = Completed net' \<and>
              net_trace net' = net_trace net @
                broadcast_events env pkt [0..<getProcessCount env]
                  (take (getProcessCount env) (responses (inbox net))) \<and>
              responses (inbox net') = drop (getProcessCount env) (responses (inbox net)) \<and>
              not_responses (inbox net') = not_responses (inbox net)"
      by (simp add: broadcastPacketToProcesses_def ev)
  }
  {
    assume l: "length (responses (inbox net)) < getProcessCount env"
    then have "length (responses (inbox net)) < length [0..<getProcessCount env]" by simp
    from broadcastLoop_blocks [OF c this s] l
    show "\<exists>net'. broadcastPacketToProcesses env pkt net = BlocksInRecv net' \<and>
              net_trace net' = net_trace net @
                broadcast_events env pkt [0..<length (responses (inbox net))]
                  (responses (inbox net)) @
                [NetSend (pkt\<lparr>sender := getMCPCoreNum env,
                   receiver := hd (getCoreListForProcess env (length (responses (inbox net))))\<rparr>)]"
      by (simp add: broadcastPacketToProcesses_def ev)
  }
qed

theorem broadcast_to_processes_serialised_witness:
  "getProcessCount example_env = 3 \<and>
   (\<exists>net'. broadcastPacketToProcesses example_env update_packet answering_network = Completed net' \<and>
      net_trace net' = [sent_to 1, NetRecv (ack_from 1), sent_to 3, NetRecv (ack_from 3),
                        sent_to 5, NetRecv (ack_from 5)] \<and>
      responses (inbox net') = [] \<and> not_responses (inbox net') = [request_packet]) \<and>
   (\<exists>net'. broadcastPacketToProcesses example_env update_packet starved_network = BlocksInRecv net' \<and>
      net_trace net' = [sent_to 1, NetRecv (ack_from 1), sent_to 3])"
proof -
  have c: "\<forall>p < getProcessCount example_env. getCoreListForProcess example_env p \<noteq> []"
    by (simp add: example_env_def)
  have P: "getProcessCount example_env = 3" by (simp add: example_env_def)
  have r: "responses (inbox answering_network) = [ack_from 1, ack_from 3, ack_from 5]"
    "not_responses (inbox answering_network) = [request_packet]"
    "responses (inbox starved_network) = [ack_from 1]"
    "net_trace answering_network = []" "net_trace starved_network = []"
    by (simp_all add: responses_def not_responses_def answering_network_def starved_network_def
          ack_from_def request_packet_def)
  from broadcast_to_processes_serialised [OF c, of answering_network update_packet]
  have a: "\<exists>net'. broadcastPacketToProcesses example_env update_packet answering_network = Completed net' \<and>
      net_trace net' = [sent_to 1, NetRecv (ack_from 1), sent_to 3, NetRecv (ack_from 3),
                        sent_to 5, NetRecv (ack_from 5)] \<and>
      responses (inbox net') = [] \<and> not_responses (inbox net') = [request_packet]"
    unfolding P r
    by (simp add: upt_rec broadcast_events_def send_then_recv_def sent_to_def example_env_def)
  from broadcast_to_processes_serialised [OF c, of starved_network update_packet]
  have b: "\<exists>net'. broadcastPacketToProcesses example_env update_packet starved_network = BlocksInRecv net' \<and>
      net_trace net' = [sent_to 1, NetRecv (ack_from 1), sent_to 3]"
    unfolding P r
    by (simp add: upt_rec broadcast_events_def send_then_recv_def sent_to_def example_env_def)
  from P a b show ?thesis by blast
qed

section \<open>Thread exit at the LCP\<close>

text \<open>
  Where \<open>processPacket\<close> reads the two arguments of the thread-exit handler, for any
  numbering of the tags in which the tag of \<open>THREAD_EXIT\<close> differs from those of the
  cases before it: the thread id in the bytes 4 to 7 of the packet, the cycle count in
  the bytes 36 to 43.
\<close>

lemma processPacket_thread_exit:
  assumes "read_SInt32 pkt 0 = Some (tag LCP_MESSAGE_THREAD_EXIT)"
    and "tag LCP_MESSAGE_THREAD_EXIT \<notin> tag ` {LCP_MESSAGE_QUIT, LCP_MESSAGE_COMMID_UPDATE,
           LCP_MESSAGE_SIMULATOR_FINISHED, LCP_MESSAGE_SIMULATOR_FINISHED_ACK,
           LCP_MESSAGE_THREAD_SPAWN_REQUEST_FROM_REQUESTER,
           LCP_MESSAGE_THREAD_SPAWN_REQUEST_FROM_MASTER,
           LCP_MESSAGE_THREAD_SPAWN_REPLY_FROM_SLAVE}"
  shows "processPacket tag pkt =
           (if 44 \<le> length pkt
            then Dispatched (MasterOnThreadExit
                   (word_of_nat (little_endian (take 4 (drop 4 pkt))))
                   (word_of_nat (little_endian (take 8 (drop 36 pkt)))))
            else ReadOutOfBounds)"
proof -
  let ?t = "tag LCP_MESSAGE_THREAD_EXIT"
  from assms(2) have ne: "?t \<noteq> tag LCP_MESSAGE_QUIT" "?t \<noteq> tag LCP_MESSAGE_COMMID_UPDATE"
    "?t \<noteq> tag LCP_MESSAGE_SIMULATOR_FINISHED" "?t \<noteq> tag LCP_MESSAGE_SIMULATOR_FINISHED_ACK"
    "?t \<noteq> tag LCP_MESSAGE_THREAD_SPAWN_REQUEST_FROM_REQUESTER"
    "?t \<noteq> tag LCP_MESSAGE_THREAD_SPAWN_REQUEST_FROM_MASTER"
    "?t \<noteq> tag LCP_MESSAGE_THREAD_SPAWN_REPLY_FROM_SLAVE"
    by blast+
  have "processPacket tag pkt =
          (case read_SInt32 pkt 4 of
             None \<Rightarrow> ReadOutOfBounds
           | Some thread_id \<Rightarrow>
               (case read_UInt64 pkt (4 + 4 * 8) of
                  None \<Rightarrow> ReadOutOfBounds
                | Some cycle_count \<Rightarrow> Dispatched (MasterOnThreadExit thread_id cycle_count)))"
    using assms(1) ne by (simp add: processPacket_def)
  also have "\<dots> = (if 44 \<le> length pkt
            then Dispatched (MasterOnThreadExit
                   (word_of_nat (little_endian (take 4 (drop 4 pkt))))
                   (word_of_nat (little_endian (take 8 (drop 36 pkt)))))
            else ReadOutOfBounds)"
    by (simp add: read_SInt32_def read_UInt64_def read_bytes_def cong: option.case_cong)
  finally show ?thesis .
qed

text \<open>
  Claim C8: on a packet whose first 32-bit word is the \<open>THREAD_EXIT\<close> tag, the
  thread-exit handler is called with the thread id taken from the 32-bit word after the
  tag and the cycle count taken from the 64-bit word after the thread id. The code does
  the first and not the second. The packet below holds the tag, the thread id 3 in the
  next four bytes and the cycle count 1000 in the eight bytes after it.
  \<open>processPacket\<close> reads the cycle count 32 bytes after the thread id's address,
  which is beyond the end of this packet; with 28 more bytes in the buffer it passes
  the last eight of them, here the number 9, as the cycle count, and not the 1000 that
  follows the thread id.
\<close>

theorem thread_exit_cycle_count_offset:
  "read_SInt32 thread_exit_packet 0 = Some (example_tag LCP_MESSAGE_THREAD_EXIT) \<and>
   read_SInt32 thread_exit_packet 4 = Some 3 \<and>
   read_UInt64 thread_exit_packet 8 = Some 1000 \<and>
   processPacket example_tag thread_exit_packet = ReadOutOfBounds \<and>
   processPacket example_tag (thread_exit_packet @ trailing_bytes)
     = Dispatched (MasterOnThreadExit 3 9)"
  by (simp add: processPacket_def read_SInt32_def read_UInt64_def read_bytes_def
                thread_exit_packet_def trailing_bytes_def)

end
